theory Spec2Isabelle
  imports Complex_Main "HOL-Library.Sublist" "HOL-Library.AList"
begin

section \<open>TracePulse: the tracer core (\<^verbatim>\<open>src/tracepulse/tracer.py\<close>)\<close>

text \<open>
  Conventions of the embedding.
  \<^item> Python \<^verbatim>\<open>float\<close> durations are modelled as \<^typ>\<open>real\<close>: rounding is abstracted,
    every arithmetic expression keeps the shape and the association order of the source.
  \<^item> \<^verbatim>\<open>bytes\<close> and \<^verbatim>\<open>str\<close> are both \<^typ>\<open>string\<close> (a list of 8-bit characters);
    \<^verbatim>\<open>decode("utf-8", errors="replace")\<close> is the identity, which is exact on ASCII input.
  \<^item> a \<^verbatim>\<open>dict\<close> of strings is an association list in insertion order.
  \<^item> Python \<^verbatim>\<open>int\<close> is \<^typ>\<open>int\<close>.
  \<^item> an exception is a value of type \<open>exn\<close>; a call that may raise returns a sum with
    the exception on the left, a call that may never return an \<open>option\<close>.
\<close>

subsection \<open>The operations on \<^verbatim>\<open>str\<close> and \<^verbatim>\<open>bytes\<close> that the tracer uses\<close>

definition CRLF :: string where
  "CRLF = [CHR 0x0D, CHR 0x0A]"

definition startswith :: "string \<Rightarrow> string \<Rightarrow> bool" where
  "startswith s p = prefix p s"

definition endswith :: "string \<Rightarrow> string \<Rightarrow> bool" where
  "endswith s p = suffix p s"

text \<open>\<^verbatim>\<open>s.find(sub)\<close>: the index of the first occurrence, \<open>None\<close> for \<^verbatim>\<open>-1\<close>.\<close>

fun find_sub :: "string \<Rightarrow> string \<Rightarrow> nat option" where
  "find_sub sub [] = (if sub = [] then Some 0 else None)"
| "find_sub sub (c # cs) =
     (if prefix sub (c # cs) then Some 0 else map_option Suc (find_sub sub cs))"

text \<open>\<^verbatim>\<open>sub in s\<close>\<close>

definition contains :: "string \<Rightarrow> string \<Rightarrow> bool" where
  "contains sub s = (find_sub sub s \<noteq> None)"

definition lower_char :: "char \<Rightarrow> char" where
  "lower_char c =
     (case map_of (zip ''ABCDEFGHIJKLMNOPQRSTUVWXYZ'' ''abcdefghijklmnopqrstuvwxyz'') c of
        Some d \<Rightarrow> d
      | None \<Rightarrow> c)"

definition lower :: "string \<Rightarrow> string" where
  "lower s = map lower_char s"

definition upper_char :: "char \<Rightarrow> char" where
  "upper_char c =
     (case map_of (zip ''abcdefghijklmnopqrstuvwxyz'' ''ABCDEFGHIJKLMNOPQRSTUVWXYZ'') c of
        Some d \<Rightarrow> d
      | None \<Rightarrow> c)"

definition upper :: "string \<Rightarrow> string" where
  "upper s = map upper_char s"

text \<open>
  Whitespace. \<^verbatim>\<open>bytes.strip()\<close> and \<^verbatim>\<open>int\<close>, of \<^verbatim>\<open>bytes\<close> and of \<^verbatim>\<open>str\<close> alike, skip the
  six ASCII whitespace bytes; \<^verbatim>\<open>str.strip()\<close> strips what \<^verbatim>\<open>str.isspace\<close> accepts, which in
  the ASCII range adds the separators \<^verbatim>\<open>0x1C\<close> to \<^verbatim>\<open>0x1F\<close>.
\<close>

definition is_space :: "char \<Rightarrow> bool" where
  "is_space c = (c \<in> set [CHR '' '', CHR 0x09, CHR 0x0A, CHR 0x0B, CHR 0x0C, CHR 0x0D])"

definition is_space_str :: "char \<Rightarrow> bool" where
  "is_space_str c = (is_space c \<or> c \<in> set [CHR 0x1C, CHR 0x1D, CHR 0x1E, CHR 0x1F])"

definition strip_with :: "(char \<Rightarrow> bool) \<Rightarrow> string \<Rightarrow> string" where
  "strip_with sp s = rev (dropWhile sp (rev (dropWhile sp s)))"

text \<open>\<^verbatim>\<open>s.split(sep)\<close> and \<^verbatim>\<open>s.split(sep, n)\<close> for a non-empty separator.\<close>

function py_split :: "string \<Rightarrow> string \<Rightarrow> string list" where
  "py_split sep [] = [[]]"
| "py_split sep (c # cs) =
     (if sep \<noteq> [] \<and> prefix sep (c # cs)
      then [] # py_split sep (drop (length sep) (c # cs))
      else (case py_split sep cs of
              p # ps \<Rightarrow> (c # p) # ps
            | [] \<Rightarrow> [[c]]))"
  by pat_completeness auto
termination
  by (relation "measure (\<lambda>(sep, s). length s)") auto

function split_max :: "string \<Rightarrow> nat \<Rightarrow> string \<Rightarrow> string list" where
  "split_max sep n [] = [[]]"
| "split_max sep n (c # cs) =
     (if n = 0 then [c # cs]
      else if sep \<noteq> [] \<and> prefix sep (c # cs)
      then [] # split_max sep (n - 1) (drop (length sep) (c # cs))
      else (case split_max sep n cs of
              p # ps \<Rightarrow> (c # p) # ps
            | [] \<Rightarrow> [[c]]))"
  by pat_completeness auto
termination
  by (relation "measure (\<lambda>(sep, n, s). length s)") auto

text \<open>\<^verbatim>\<open>str(n)\<close> for a natural number.\<close>

function str_nat :: "nat \<Rightarrow> string" where
  "str_nat n = (if n < 10 then [''0123456789'' ! n]
                else str_nat (n div 10) @ [''0123456789'' ! (n mod 10)])"
  by pat_completeness auto
termination
  by (relation "measure id") auto

declare str_nat.simps [simp del]

text \<open>
  \<^verbatim>\<open>int(s, base)\<close> on ASCII input, as CPython 3.11 reads it: surrounding whitespace, one
  optional sign, for base 16 an optional \<^verbatim>\<open>0x\<close> prefix (which one underscore may follow),
  then digits with single underscores between them. \<open>None\<close> stands for \<^verbatim>\<open>ValueError\<close>.
\<close>

definition digit_val :: "char \<Rightarrow> nat option" where
  "digit_val c = (let n = (of_char c :: nat) in
     if 48 \<le> n \<and> n \<le> 57 then Some (n - 48)
     else if 97 \<le> n \<and> n \<le> 122 then Some (n - 87)
     else if 65 \<le> n \<and> n \<le> 90 then Some (n - 55)
     else None)"

fun parse_digits :: "nat \<Rightarrow> bool \<Rightarrow> nat \<Rightarrow> string \<Rightarrow> nat option" where
  "parse_digits b prev acc [] = (if prev then Some acc else None)"
| "parse_digits b prev acc (c # cs) =
     (if c = CHR ''_'' then (if prev then parse_digits b False acc cs else None)
      else (case digit_val c of
              None \<Rightarrow> None
            | Some d \<Rightarrow> if d < b then parse_digits b True (acc * b + d) cs else None))"

text \<open>The literal proper: what is left after the whitespace, the sign and the prefix.\<close>

definition int_literal :: "(char \<Rightarrow> bool) \<Rightarrow> nat \<Rightarrow> string \<Rightarrow> string" where
  "int_literal sp base s =
     (let s1 = strip_with sp s;
          s2 = (if prefix ''-'' s1 \<or> prefix ''+'' s1 then tl s1 else s1)
      in if base = 16 \<and> (prefix ''0x'' s2 \<or> prefix ''0X'' s2)
         then (let r = drop 2 s2 in if prefix ''_'' r then tl r else r)
         else s2)"

text \<open>
  The limit on the length of a literal whose base is not a power of two (4300 digits,
  the default of \<^verbatim>\<open>sys.set_int_max_str_digits\<close>). CPython counts the digits of the run of
  digits and underscores that the literal starts with, and applies the limit when the
  underscores of that run are well placed, before it looks at what follows the run.
\<close>

definition digit_run :: "nat \<Rightarrow> string \<Rightarrow> string" where
  "digit_run base lit =
     takeWhile (\<lambda>c. c = CHR ''_'' \<or> (case digit_val c of Some d \<Rightarrow> d < base | None \<Rightarrow> False))
       lit"

fun run_ok :: "bool \<Rightarrow> string \<Rightarrow> bool" where
  "run_ok prev [] = prev"
| "run_ok prev (c # cs) = (if c = CHR ''_'' then prev \<and> run_ok False cs else run_ok True cs)"

definition over_limit :: "nat \<Rightarrow> string \<Rightarrow> nat option" where
  "over_limit base lit =
     (let run = digit_run base lit;
          digits = length (filter (\<lambda>c. c \<noteq> CHR ''_'') run)
      in if base \<notin> set [2, 4, 8, 16, 32] \<and> run_ok False run \<and> digits > 4300
         then Some digits else None)"

definition py_int :: "(char \<Rightarrow> bool) \<Rightarrow> nat \<Rightarrow> string \<Rightarrow> int option" where
  "py_int sp base s =
     (let lit = int_literal sp base s
      in if over_limit base lit \<noteq> None then None
         else (case parse_digits base False 0 lit of
                 None \<Rightarrow> None
               | Some n \<Rightarrow> Some (if prefix ''-'' (strip_with sp s) then - int n else int n)))"

text \<open>
  \<^verbatim>\<open>repr(s)\<close> of an ASCII \<^verbatim>\<open>str\<close>: double quotes when \<open>s\<close> holds a single quote and no
  double quote, escapes for the backslash, the quote, tab, line feed and carriage return,
  \<^verbatim>\<open>\xNN\<close> for the other control characters.
\<close>

definition repr_char :: "char \<Rightarrow> char \<Rightarrow> string" where
  "repr_char q c =
     (if c = CHR 0x5C \<or> c = q then [CHR 0x5C, c]
      else if c = CHR 0x09 then [CHR 0x5C, CHR ''t'']
      else if c = CHR 0x0A then [CHR 0x5C, CHR ''n'']
      else if c = CHR 0x0D then [CHR 0x5C, CHR ''r'']
      else if (of_char c :: nat) < 32 \<or> (of_char c :: nat) = 127
      then [CHR 0x5C, CHR ''x'', ''0123456789abcdef'' ! ((of_char c :: nat) div 16),
            ''0123456789abcdef'' ! ((of_char c :: nat) mod 16)]
      else [c])"

definition py_repr :: "string \<Rightarrow> string" where
  "py_repr s =
     (let q = (if CHR 0x27 \<in> set s \<and> CHR 0x22 \<notin> set s then CHR 0x22 else CHR 0x27)
      in [q] @ concat (map (repr_char q) s) @ [q])"

text \<open>\<^verbatim>\<open>str(e)\<close> of the \<^verbatim>\<open>ValueError\<close> that \<^verbatim>\<open>int(s)\<close> raises for a \<^verbatim>\<open>str\<close>.\<close>

definition int_error :: "string \<Rightarrow> string" where
  "int_error s =
     (case over_limit 10 (int_literal is_space 10 s) of
        Some digits \<Rightarrow>
          ''Exceeds the limit (4300 digits) for integer string conversion: value has ''
          @ str_nat digits @ '' digits; use sys.set_int_max_str_digits() to increase the limit''
      | None \<Rightarrow> ''invalid literal for int() with base 10: '' @ take 200 (py_repr s))"

text \<open>\<^verbatim>\<open>str(i)\<close> for an integer, \<^verbatim>\<open>str(h)\<close> for an optional string, \<^verbatim>\<open>d.get(k, dflt)\<close>.\<close>

definition str_int :: "int \<Rightarrow> string" where
  "str_int i = (if i < 0 then ''-'' @ str_nat (nat (- i)) else str_nat (nat i))"

definition str_opt :: "string option \<Rightarrow> string" where
  "str_opt h = (case h of None \<Rightarrow> ''None'' | Some s \<Rightarrow> s)"

definition dict_get :: "(string \<times> string) list \<Rightarrow> string \<Rightarrow> string \<Rightarrow> string" where
  "dict_get d k dflt = (case map_of d k of None \<Rightarrow> dflt | Some v \<Rightarrow> v)"

subsection \<open>Data model\<close>

record TimingBreakdown =
  dns_ms :: real
  tcp_connect_ms :: real
  tls_handshake_ms :: real
  server_processing_ms :: real
  content_transfer_ms :: real
  total_ms :: real
  url :: string
  http_method :: string  \<comment> \<open>the field \<^verbatim>\<open>method\<close>\<close>
  status_code :: int
  response_size :: int
  headers_sent :: "(string \<times> string) list"
  headers_received :: "(string \<times> string) list"
  ip_address :: string
  tls_version :: string
  response_body :: string
  geo_info :: string
  error :: "string option"

text \<open>The dataclass defaults: \<^verbatim>\<open>TimingBreakdown()\<close>.\<close>

definition new_timing :: TimingBreakdown where
  "new_timing = \<lparr> dns_ms = 0, tcp_connect_ms = 0, tls_handshake_ms = 0,
     server_processing_ms = 0, content_transfer_ms = 0, total_ms = 0,
     url = [], http_method = ''GET'', status_code = 0, response_size = 0,
     headers_sent = [], headers_received = [], ip_address = [], tls_version = [],
     response_body = [], geo_info = [], error = None \<rparr>"

text \<open>The property \<^verbatim>\<open>overhead_ms\<close>.\<close>

definition accounted :: "TimingBreakdown \<Rightarrow> real" where
  "accounted t = dns_ms t + tcp_connect_ms t + tls_handshake_ms t
                 + server_processing_ms t + content_transfer_ms t"

definition overhead_ms :: "TimingBreakdown \<Rightarrow> real" where
  "overhead_ms t = max 0 (total_ms t - accounted t)"

subsection \<open>\<^verbatim>\<open>_parse_chunked_size\<close>\<close>

text \<open>
  The \<^verbatim>\<open>while i < len(parts)\<close> loop as a recursion on the parts from index \<open>i\<close> on:
  a hexadecimal size line adds its value and skips the next part, size zero stops, any
  other non-blank part adds its own length.
\<close>

function chunk_loop :: "string list \<Rightarrow> int \<Rightarrow> int" where
  "chunk_loop [] tot = tot"
| "chunk_loop (p # ps) tot =
     (let line = strip_with is_space p in
      if line \<noteq> [] then
        (case py_int is_space 16 line of
           Some chunk_size \<Rightarrow>
             if chunk_size = 0 then tot
             else chunk_loop (drop 1 ps) (tot + chunk_size)
         | None \<Rightarrow> chunk_loop ps (tot + int (length p)))
      else chunk_loop ps tot)"
  by pat_completeness auto
termination
  by (relation "measure (\<lambda>(ps, t). length ps)") auto

definition parse_chunked_size :: "string \<Rightarrow> int" where
  "parse_chunked_size data = chunk_loop (py_split CRLF data) 0"

subsection \<open>The environment\<close>

text \<open>
  The exceptions the handlers of \<^verbatim>\<open>trace_request\<close> tell apart, each with its message
  \<^verbatim>\<open>str(e)\<close>; \<open>OtherException\<close> is any other subclass of \<^verbatim>\<open>Exception\<close>.
\<close>

datatype exn =
    ValueError string
  | GaiError string
  | ConnectionRefusedError string
  | SocketTimeout string
  | SSLError string
  | OtherException string

text \<open>
  What \<^verbatim>\<open>urlparse\<close> yields, as far as the tracer reads it. The attribute \<^verbatim>\<open>port\<close> is a
  property that raises \<^verbatim>\<open>ValueError\<close> for a port that is not a number in range.
\<close>

record parsed_url =
  p_scheme :: string
  p_hostname :: "string option"
  p_port :: "exn + int option"

text \<open>
  Everything outside the program is a parameter: the standard library functions that are
  not modelled (\<^verbatim>\<open>urlparse\<close>, the text of a float) and the answers of the clock, the
  resolver and the socket. Calls are counted by \<open>tick\<close>; the answer to a call is read at
  the current count, so a world fixes one behaviour of the network and no behaviour is
  excluded. \<open>connect\<close> stands for \<^verbatim>\<open>socket.socket\<close>, \<^verbatim>\<open>settimeout\<close> and \<^verbatim>\<open>connect\<close>;
  \<open>wrap_socket\<close> for \<^verbatim>\<open>create_default_context\<close>, \<^verbatim>\<open>wrap_socket\<close> and \<^verbatim>\<open>version\<close>;
  \<open>sendall\<close> for building the request text and sending it (the text does not reach the
  result otherwise). \<^verbatim>\<open>sock.close()\<close> in the \<^verbatim>\<open>finally\<close> clause has no effect on the result.
\<close>

record world =
  tick :: nat
  clock :: "nat \<Rightarrow> real"
  urlparse :: "string \<Rightarrow> exn + parsed_url"
  str_float :: "real \<Rightarrow> string"
  getaddrinfo :: "nat \<Rightarrow> string option \<Rightarrow> int \<Rightarrow> exn + string list"
  connect :: "nat \<Rightarrow> string \<Rightarrow> exn option"
  wrap_socket :: "nat \<Rightarrow> string option \<Rightarrow> exn + string option"
  sendall :: "nat \<Rightarrow> exn option"
  recv :: "nat \<Rightarrow> exn + string"

definition step :: "world \<Rightarrow> world" where
  "step w = w \<lparr> tick := Suc (tick w) \<rparr>"

definition perf_counter :: "world \<Rightarrow> real \<times> world" where
  "perf_counter w = (clock w (tick w), step w)"

definition socket_getaddrinfo ::
  "world \<Rightarrow> string option \<Rightarrow> int \<Rightarrow> (exn + string list) \<times> world" where
  "socket_getaddrinfo w host port = (getaddrinfo w (tick w) host port, step w)"

definition sock_connect :: "world \<Rightarrow> string \<Rightarrow> exn option \<times> world" where
  "sock_connect w sockaddr = (connect w (tick w) sockaddr, step w)"

definition context_wrap_socket ::
  "world \<Rightarrow> string option \<Rightarrow> (exn + string option) \<times> world" where
  "context_wrap_socket w host = (wrap_socket w (tick w) host, step w)"

definition sock_sendall :: "world \<Rightarrow> exn option \<times> world" where
  "sock_sendall w = (sendall w (tick w), step w)"

definition sock_recv :: "world \<Rightarrow> (exn + string) \<times> world" where
  "sock_recv w = (recv w (tick w), step w)"

subsection \<open>\<^verbatim>\<open>trace_request\<close>: the transfer phase\<close>

text \<open>
  The \<^verbatim>\<open>for ... else\<close> over the lower-cased header lines: \<open>Inr True\<close> when a
  \<^verbatim>\<open>content-length:\<close> line is satisfied (the \<^verbatim>\<open>break\<close>), \<open>Inr False\<close> when the loop runs
  out, \<open>Inl\<close> when \<^verbatim>\<open>int\<close> raises.
\<close>

fun content_length_scan :: "int \<Rightarrow> string list \<Rightarrow> exn + bool" where
  "content_length_scan body_so_far [] = Inr False"
| "content_length_scan body_so_far (line # lines) =
     (if startswith line ''content-length:''
      then (case py_int is_space 10
                   (strip_with is_space_str (split_max '':'' 1 line ! 1)) of
              None \<Rightarrow>
                Inl (ValueError (int_error (strip_with is_space_str (split_max '':'' 1 line ! 1))))
            | Some expected \<Rightarrow>
                if body_so_far \<ge> expected then Inr True
                else content_length_scan body_so_far lines)
      else content_length_scan body_so_far lines)"

text \<open>
  The completion check made after each read of the loop (lines 182 to 198):
  \<open>Inr True\<close> is \<^verbatim>\<open>break\<close>, \<open>Inr False\<close> is another round.
\<close>

definition response_complete :: "string \<Rightarrow> exn + bool" where
  "response_complete response_data =
     (case find_sub (CRLF @ CRLF) response_data of
        None \<Rightarrow> Inr False
      | Some header_end_pos \<Rightarrow>
          (let header_text = lower (take header_end_pos response_data);
               body_so_far = int (length response_data) - int header_end_pos - 4
           in case content_length_scan body_so_far (py_split CRLF header_text) of
                Inl e \<Rightarrow> Inl e
              | Inr True \<Rightarrow> Inr True
              | Inr False \<Rightarrow>
                  Inr (contains ''transfer-encoding: chunked''
                         (lower (take header_end_pos response_data))
                       \<and> endswith response_data (''0'' @ CRLF @ CRLF))))"

text \<open>
  The \<^verbatim>\<open>while True\<close> loop. It ends on a timeout, on an empty read, or when the check
  says so; another exception leaves it. A peer that keeps sending keeps it running, so
  the result is an \<open>option\<close>.
\<close>

partial_function (option) read_loop ::
  "world \<Rightarrow> string \<Rightarrow> ((exn + string) \<times> world) option" where
  "read_loop w response_data =
     (case fst (sock_recv w) of
        Inl e \<Rightarrow>
          (case e of
             SocketTimeout m \<Rightarrow> Some (Inr response_data, snd (sock_recv w))
           | _ \<Rightarrow> Some (Inl e, snd (sock_recv w)))
      | Inr chunk \<Rightarrow>
          if chunk = [] then Some (Inr response_data, snd (sock_recv w))
          else (case response_complete (response_data @ chunk) of
                  Inl e \<Rightarrow> Some (Inl e, snd (sock_recv w))
                | Inr finished \<Rightarrow>
                    if finished then Some (Inr (response_data @ chunk), snd (sock_recv w))
                    else read_loop (snd (sock_recv w)) (response_data @ chunk)))"

subsection \<open>\<^verbatim>\<open>trace_request\<close>: parsing the response\<close>

definition parse_headers :: "string list \<Rightarrow> (string \<times> string) list" where
  "parse_headers lines =
     fold (\<lambda>line resp_headers.
             if contains '': '' line
             then AList.update (lower (split_max '': '' 1 line ! 0))
                    (split_max '': '' 1 line ! 1) resp_headers
             else resp_headers) lines []"

text \<open>
  Lines 206 to 237. A \<^verbatim>\<open>ValueError\<close> of \<^verbatim>\<open>int(status_parts[1])\<close> is swallowed by
  \<^verbatim>\<open>except Exception: pass\<close> and leaves the fields assigned so far.
\<close>

definition parse_response :: "string \<Rightarrow> TimingBreakdown \<Rightarrow> TimingBreakdown" where
  "parse_response response_data timing =
     (case find_sub (CRLF @ CRLF) response_data of
        None \<Rightarrow> timing
      | Some header_end \<Rightarrow>
          (let header_section = take header_end response_data;
               body_section = drop (header_end + 4) response_data;
               timing = timing \<lparr> response_size := int (length body_section) \<rparr>;
               lines = py_split CRLF header_section;
               status_parts = split_max '' '' 2 (hd lines)
           in case (if length status_parts \<ge> 2
                    then map_option Some (py_int is_space 10 (status_parts ! 1))
                    else Some None) of
                None \<Rightarrow> timing
              | Some code \<Rightarrow>
                  (let timing = (case code of
                                   Some c \<Rightarrow> timing \<lparr> status_code := c \<rparr>
                                 | None \<Rightarrow> timing);
                       resp_headers = parse_headers (tl lines);
                       timing = timing \<lparr> headers_received := resp_headers \<rparr>;
                       timing = (if lower (dict_get resp_headers ''transfer-encoding'' [])
                                      = ''chunked''
                                 then timing \<lparr> response_size := parse_chunked_size body_section \<rparr>
                                 else timing)
                   in timing \<lparr> response_body := take 4000 body_section \<rparr>)))"

subsection \<open>\<^verbatim>\<open>trace_request\<close>: one hop\<close>

text \<open>
  How control leaves the measured part of the \<^verbatim>\<open>try\<close> block, with the record as mutated
  so far: at its end (line 246), by the \<^verbatim>\<open>return\<close> of line 123, or by an exception.
\<close>

datatype outcome =
    Completed TimingBreakdown
  | Returned TimingBreakdown
  | Raised exn TimingBreakdown

text \<open>Phases 1 to 3: resolution, connect, handshake.\<close>

definition open_connection ::
  "world \<Rightarrow> string option \<Rightarrow> int \<Rightarrow> bool \<Rightarrow> TimingBreakdown \<Rightarrow> outcome \<times> world" where
  "open_connection w host port is_https timing =
     (let (t_dns_start, w) = perf_counter w;
          (r, w) = socket_getaddrinfo w host port
      in case r of
           Inl e \<Rightarrow> (Raised e timing, w)
         | Inr addr_info \<Rightarrow>
             (let (t_dns_end, w) = perf_counter w;
                  timing = timing \<lparr> dns_ms := (t_dns_end - t_dns_start) * 1000 \<rparr>
              in if addr_info = []
                 then (Returned (timing \<lparr> error :=
                         Some (''DNS resolution failed for '' @ str_opt host) \<rparr>), w)
                 else
                   (let sockaddr = hd addr_info;
                        timing = timing \<lparr> ip_address := sockaddr \<rparr>;
                        (t_tcp_start, w) = perf_counter w;
                        (r, w) = sock_connect w sockaddr
                    in case r of
                         Some e \<Rightarrow> (Raised e timing, w)
                       | None \<Rightarrow>
                           (let (t_tcp_end, w) = perf_counter w;
                                timing = timing \<lparr> tcp_connect_ms :=
                                           (t_tcp_end - t_tcp_start) * 1000 \<rparr>
                            in if is_https
                               then
                                 (let (t_tls_start, w) = perf_counter w;
                                      (r, w) = context_wrap_socket w host
                                  in case r of
                                       Inl e \<Rightarrow> (Raised e timing, w)
                                     | Inr version \<Rightarrow>
                                         (let (t_tls_end, w) = perf_counter w
                                          in (Completed (timing \<lparr>
                                                tls_handshake_ms := (t_tls_end - t_tls_start) * 1000,
                                                tls_version := (case version of
                                                                  Some v \<Rightarrow> v
                                                                | None \<Rightarrow> []) \<rparr>), w)))
                               else (Completed timing, w)))))"

text \<open>Phases 4 and 5, the parse and the total (lines 145 to 246), on the open connection.\<close>

definition exchange :: "world \<Rightarrow> TimingBreakdown \<Rightarrow> (outcome \<times> world) option" where
  "exchange w timing =
     (let (t_send_start, w) = perf_counter w;
          (r, w) = sock_sendall w
      in case r of
           Some e \<Rightarrow> Some (Raised e timing, w)
         | None \<Rightarrow>
             (let (r, w) = sock_recv w
              in case r of
                   Inl e \<Rightarrow> Some (Raised e timing, w)
                 | Inr chunk \<Rightarrow>
                     (let (t_first_byte, w) = perf_counter w;
                          timing = timing \<lparr> server_processing_ms :=
                                     (t_first_byte - t_send_start) * 1000 \<rparr>;
                          response_data = [] @ chunk;
                          (t_transfer_start, w) = perf_counter w
                      in case read_loop w response_data of
                           None \<Rightarrow> None
                         | Some (Inl e, w) \<Rightarrow> Some (Raised e timing, w)
                         | Some (Inr response_data, w) \<Rightarrow>
                             (let (t_transfer_end, w) = perf_counter w;
                                  timing = timing \<lparr> content_transfer_ms :=
                                             (t_transfer_end - t_transfer_start) * 1000 \<rparr>;
                                  timing = parse_response response_data timing
                              in Some (Completed (timing \<lparr> total_ms :=
                                         dns_ms timing + tcp_connect_ms timing
                                         + tls_handshake_ms timing
                                         + server_processing_ms timing
                                         + content_transfer_ms timing \<rparr>), w)))))"

text \<open>Lines 115 to 246 as a whole.\<close>

definition trace_hop ::
  "world \<Rightarrow> string option \<Rightarrow> int \<Rightarrow> bool \<Rightarrow> TimingBreakdown \<Rightarrow> (outcome \<times> world) option" where
  "trace_hop w host port is_https timing =
     (case open_connection w host port is_https timing of
        (Completed timing, w) \<Rightarrow> exchange w timing
      | other \<Rightarrow> Some other)"

subsection \<open>\<^verbatim>\<open>trace_request\<close>: the whole function\<close>

text \<open>
  Lines 97 to 111, which stand before the \<^verbatim>\<open>try\<close>: an exception of \<^verbatim>\<open>urlparse\<close> or of
  \<^verbatim>\<open>parsed.port\<close> is not handled by \<^verbatim>\<open>trace_request\<close>.
\<close>

definition prepare ::
  "world \<Rightarrow> string \<Rightarrow> string \<Rightarrow> (string \<times> string) list option
     \<Rightarrow> exn + (parsed_url \<times> string option \<times> int \<times> bool \<times> TimingBreakdown)" where
  "prepare w req_url meth headers =
     (case urlparse w req_url of
        Inl e \<Rightarrow> Inl e
      | Inr parsed \<Rightarrow>
          (let is_https = (p_scheme parsed = ''https'');
               host = p_hostname parsed
           in case p_port parsed of
                Inl e \<Rightarrow> Inl e
              | Inr parsed_port \<Rightarrow>
                  (let port = (case parsed_port of
                                 Some p \<Rightarrow> if p \<noteq> 0 then p else (if is_https then 443 else 80)
                               | None \<Rightarrow> (if is_https then 443 else 80));
                       timing = new_timing \<lparr> url := req_url, http_method := upper meth \<rparr>;
                       timing = (case headers of
                                   Some h \<Rightarrow> if h \<noteq> [] then timing \<lparr> headers_sent := h \<rparr>
                                             else timing
                                 | None \<Rightarrow> timing)
                   in Inr (parsed, host, port, is_https, timing))))"

text \<open>The handlers of lines 265 to 274, in their order.\<close>

definition error_message :: "world \<Rightarrow> exn \<Rightarrow> string option \<Rightarrow> int \<Rightarrow> real \<Rightarrow> string" where
  "error_message w e host port timeout =
     (case e of
        GaiError m \<Rightarrow> ''DNS resolution failed: '' @ m
      | ConnectionRefusedError m \<Rightarrow>
          ''Connection refused by '' @ str_opt host @ '':'' @ str_int port
      | SocketTimeout m \<Rightarrow> ''Connection timed out after '' @ str_float w timeout @ ''s''
      | SSLError m \<Rightarrow> ''TLS error: '' @ m
      | ValueError m \<Rightarrow> ''Request failed: '' @ m
      | OtherException m \<Rightarrow> ''Request failed: '' @ m)"

text \<open>Lines 249 to 253: whether a redirect is followed, and to which URL.\<close>

definition is_redirect :: "int \<Rightarrow> bool" where
  "is_redirect code = (code \<in> set [301, 302, 303, 307, 308])"

definition location_of :: "TimingBreakdown \<Rightarrow> string" where
  "location_of timing = dict_get (headers_received timing) ''location'' []"

definition takes_redirect :: "bool \<Rightarrow> int \<Rightarrow> TimingBreakdown \<Rightarrow> bool" where
  "takes_redirect follow_redirects max_redirects timing =
     (follow_redirects \<and> is_redirect (status_code timing) \<and> max_redirects > 0
      \<and> location_of timing \<noteq> [])"

definition redirect_target :: "parsed_url \<Rightarrow> string option \<Rightarrow> string \<Rightarrow> string" where
  "redirect_target parsed host location =
     (if startswith location ''/''
      then p_scheme parsed @ ''://'' @ str_opt host @ location
      else location)"

text \<open>Lines 258 to 262.\<close>

definition fold_redirect ::
  "TimingBreakdown \<Rightarrow> string \<Rightarrow> TimingBreakdown \<Rightarrow> TimingBreakdown" where
  "fold_redirect timing req_url redirect_timing =
     redirect_timing \<lparr>
       dns_ms := dns_ms redirect_timing + dns_ms timing,
       tcp_connect_ms := tcp_connect_ms redirect_timing + tcp_connect_ms timing,
       tls_handshake_ms := tls_handshake_ms redirect_timing + tls_handshake_ms timing,
       total_ms := total_ms redirect_timing + total_ms timing,
       url := req_url \<rparr>"

text \<open>
  The result is \<open>None\<close> when a read loop never ends, \<open>Inl\<close> when an exception escapes
  the function, \<open>Inr\<close> the returned record otherwise. An exception that escapes the
  recursive call is raised inside the caller's \<^verbatim>\<open>try\<close> and handled there.
\<close>

function trace_request ::
  "world \<Rightarrow> string \<Rightarrow> string \<Rightarrow> (string \<times> string) list option \<Rightarrow> string option \<Rightarrow> real
     \<Rightarrow> bool \<Rightarrow> int \<Rightarrow> ((exn + TimingBreakdown) \<times> world) option" where
  "trace_request w req_url meth headers body timeout follow_redirects max_redirects =
     (case prepare w req_url meth headers of
        Inl e \<Rightarrow> Some (Inl e, w)
      | Inr (parsed, host, port, is_https, timing) \<Rightarrow>
          (case trace_hop w host port is_https timing of
             None \<Rightarrow> None
           | Some (Returned timing, w) \<Rightarrow> Some (Inr timing, w)
           | Some (Raised e timing, w) \<Rightarrow>
               Some (Inr (timing \<lparr> error :=
                       Some (error_message w e host port timeout) \<rparr>), w)
           | Some (Completed timing, w) \<Rightarrow>
               if takes_redirect follow_redirects max_redirects timing
               then
                 (case trace_request w (redirect_target parsed host (location_of timing))
                         meth headers body timeout follow_redirects (max_redirects - 1) of
                    None \<Rightarrow> None
                  | Some (Inl e, w) \<Rightarrow>
                      Some (Inr (timing \<lparr> error :=
                              Some (error_message w e host port timeout) \<rparr>), w)
                  | Some (Inr redirect_timing, w) \<Rightarrow>
                      Some (Inr (fold_redirect timing req_url redirect_timing), w))
               else Some (Inr timing, w)))"
  by pat_completeness auto
termination
  by (relation "measure (\<lambda>(w, req_url, meth, headers, body, timeout, follow, max_redirects).
                           nat max_redirects)")
     (auto simp: takes_redirect_def)

declare trace_request.simps [simp del]

text \<open>
  Whether the call takes the redirect branch of line 249: its first hop completes and
  the record it completes with satisfies the condition.
\<close>

definition follows_redirect ::
  "world \<Rightarrow> string \<Rightarrow> string \<Rightarrow> (string \<times> string) list option \<Rightarrow> bool \<Rightarrow> int \<Rightarrow> bool" where
  "follows_redirect w req_url meth headers follow_redirects max_redirects =
     (case prepare w req_url meth headers of
        Inl e \<Rightarrow> False
      | Inr (parsed, host, port, is_https, timing) \<Rightarrow>
          (case trace_hop w host port is_https timing of
             Some (Completed timing, w) \<Rightarrow>
               takes_redirect follow_redirects max_redirects timing
           | _ \<Rightarrow> False))"

text \<open>Notions used to state properties of a run.\<close>

fun timing_of :: "outcome \<Rightarrow> TimingBreakdown" where
  "timing_of (Completed t) = t"
| "timing_of (Returned t) = t"
| "timing_of (Raised e t) = t"

definition phases_nonneg :: "TimingBreakdown \<Rightarrow> bool" where
  "phases_nonneg t = (0 \<le> dns_ms t \<and> 0 \<le> tcp_connect_ms t \<and> 0 \<le> tls_handshake_ms t
                      \<and> 0 \<le> server_processing_ms t \<and> 0 \<le> content_transfer_ms t)"

text \<open>\<open>later w w'\<close>: \<open>w'\<close> is the world \<open>w\<close> after at least one more call.\<close>

definition later :: "world \<Rightarrow> world \<Rightarrow> bool" where
  "later w w' = (w' = w \<lparr> tick := tick w' \<rparr> \<and> tick w < tick w')"

text \<open>What the header section of the buffered bytes declares, as the loop reads it.\<close>

definition header_lines :: "string \<Rightarrow> string list" where
  "header_lines response_data =
     (case find_sub (CRLF @ CRLF) response_data of
        None \<Rightarrow> []
      | Some pos \<Rightarrow> py_split CRLF (lower (take pos response_data)))"

definition declares_content_length :: "string \<Rightarrow> bool" where
  "declares_content_length response_data =
     list_ex (\<lambda>line. startswith line ''content-length:'') (header_lines response_data)"




subsection \<open>\<^verbatim>\<open>trace_concurrent\<close>\<close>

text \<open>
  The result dictionary, the task list and the loop over \<^verbatim>\<open>as_completed\<close>. The order in
  which the futures complete is the parameter \<open>order\<close>, a list of task indices; \<open>run j\<close>
  is what the worker of task \<open>j\<close> ends with. \<^verbatim>\<open>future.result()\<close> re-raises the exception
  of its worker, which leaves \<^verbatim>\<open>trace_concurrent\<close> once the executor has waited for the
  other workers.
\<close>

type_synonym results = "(string \<times> TimingBreakdown list) list"

definition init_results :: "string list \<Rightarrow> results" where
  "init_results urls = fold (\<lambda>u d. AList.update u [] d) urls []"

definition tasks_of :: "string list \<Rightarrow> int \<Rightarrow> (string \<times> nat) list" where
  "tasks_of urls count_per_url =
     concat (map (\<lambda>u. map (\<lambda>i. (u, i)) [0..<nat count_per_url]) urls)"

fun collect ::
  "(nat \<Rightarrow> (exn + TimingBreakdown) option) \<Rightarrow> (string \<times> nat) list \<Rightarrow> nat list \<Rightarrow> results
     \<Rightarrow> (exn + results) option" where
  "collect run tasks [] results = Some (Inr results)"
| "collect run tasks (j # order) results =
     (case run j of
        None \<Rightarrow> None
      | Some (Inl e) \<Rightarrow> if list_all (\<lambda>k. run k \<noteq> None) order then Some (Inl e) else None
      | Some (Inr r) \<Rightarrow>
          collect run tasks order
            (AList.map_entry (fst (tasks ! j)) (\<lambda>l. l @ [r]) results))"

text \<open>
  \<open>worlds j\<close> is the environment that the worker of task \<open>j\<close> meets. \<^verbatim>\<open>_trace_one\<close> calls
  \<^verbatim>\<open>trace_request\<close> with the defaults \<^verbatim>\<open>follow_redirects=True\<close>, \<^verbatim>\<open>max_redirects=10\<close>.
\<close>

definition trace_concurrent ::
  "(nat \<Rightarrow> world) \<Rightarrow> nat list \<Rightarrow> string list \<Rightarrow> int \<Rightarrow> string
     \<Rightarrow> (string \<times> string) list option \<Rightarrow> string option \<Rightarrow> real \<Rightarrow> int
     \<Rightarrow> (exn + results) option" where
  "trace_concurrent worlds order urls count_per_url meth headers body timeout max_workers =
     (let results = init_results urls;
          tasks = tasks_of urls count_per_url
      in if max_workers \<le> 0
         then Some (Inl (ValueError ''max_workers must be greater than 0''))
         else collect
                (\<lambda>j. map_option fst
                       (trace_request (worlds j) (fst (tasks ! j)) meth headers body timeout
                          True 10))
                tasks order results)"

subsection \<open>\<^verbatim>\<open>average_timing\<close>\<close>

text \<open>\<^verbatim>\<open>sum(f(r) for r in results) / n\<close>\<close>

definition mean_of :: "(TimingBreakdown \<Rightarrow> real) \<Rightarrow> TimingBreakdown list \<Rightarrow> real" where
  "mean_of f results = sum_list (map f results) / real (length results)"

definition average_timing :: "TimingBreakdown list \<Rightarrow> TimingBreakdown" where
  "average_timing results =
     (if results = [] then new_timing
      else new_timing \<lparr>
        url := url (hd results), http_method := http_method (hd results),
        status_code := status_code (hd results),
        dns_ms := mean_of dns_ms results,
        tcp_connect_ms := mean_of tcp_connect_ms results,
        tls_handshake_ms := mean_of tls_handshake_ms results,
        server_processing_ms := mean_of server_processing_ms results,
        content_transfer_ms := mean_of content_transfer_ms results,
        total_ms := mean_of total_ms results,
        response_size := response_size (last results),
        ip_address := ip_address (hd results),
        tls_version := tls_version (hd results) \<rparr>)"

subsection \<open>Records as objects\<close>

text \<open>
  A \<^verbatim>\<open>TimingBreakdown\<close> is a mutable object, and a Python list holds references to such
  objects. The heap is the list of the objects allocated so far; a reference is the
  index of its object. The three operations on objects that the tracer uses:
  the constructor call, which allocates, the attribute read \<^verbatim>\<open>r.f\<close>, and the attribute
  assignment \<^verbatim>\<open>r.f = v\<close>, which overwrites the object in place.
\<close>

type_synonym ref = nat

type_synonym heap = "TimingBreakdown list"

definition obj_new :: "TimingBreakdown \<Rightarrow> heap \<Rightarrow> ref \<times> heap" where
  "obj_new init h = (length h, h @ [init])"

definition obj_get :: "heap \<Rightarrow> ref \<Rightarrow> (TimingBreakdown \<Rightarrow> 'a) \<Rightarrow> 'a" where
  "obj_get h r f = f (h ! r)"

definition obj_set :: "ref \<Rightarrow> (TimingBreakdown \<Rightarrow> TimingBreakdown) \<Rightarrow> heap \<Rightarrow> heap" where
  "obj_set r assign h = h[r := assign (h ! r)]"

text \<open>
  \<^verbatim>\<open>average_timing\<close> (lines 351 to 371) on the heap. \<open>results\<close> is the list of references
  that the caller passes. The body reads attributes of the referenced objects:
  \<^verbatim>\<open>results[0]\<close> is the first reference, \<^verbatim>\<open>results[-1]\<close> the last, and each generator
  \<^verbatim>\<open>sum(r.f for r in results)\<close> reads \<open>f\<close> of every reference in turn. The only other
  heap operation of the body is the constructor call whose value is returned.
\<close>

definition sum_attr :: "heap \<Rightarrow> ref list \<Rightarrow> (TimingBreakdown \<Rightarrow> real) \<Rightarrow> real" where
  "sum_attr h results f = sum_list (map (\<lambda>r. obj_get h r f) results)"

definition average_timing_heap :: "ref list \<Rightarrow> heap \<Rightarrow> ref \<times> heap" where
  "average_timing_heap results h =
     (if results = [] then obj_new new_timing h
      else
        (let n = real (length results)
         in obj_new (new_timing \<lparr>
              url := obj_get h (results ! 0) url,
              http_method := obj_get h (results ! 0) http_method,
              status_code := obj_get h (results ! 0) status_code,
              dns_ms := sum_attr h results dns_ms / n,
              tcp_connect_ms := sum_attr h results tcp_connect_ms / n,
              tls_handshake_ms := sum_attr h results tls_handshake_ms / n,
              server_processing_ms := sum_attr h results server_processing_ms / n,
              content_transfer_ms := sum_attr h results content_transfer_ms / n,
              total_ms := sum_attr h results total_ms / n,
              response_size := obj_get h (results ! (length results - 1)) response_size,
              ip_address := obj_get h (results ! 0) ip_address,
              tls_version := obj_get h (results ! 0) tls_version \<rparr>) h))"

text \<open>
  For contrast, lines 258 to 263 of \<^verbatim>\<open>trace_request\<close> on the heap: they assign to four
  duration attributes and to \<^verbatim>\<open>url\<close> of the object that the recursive call returned, and
  return that same reference.
\<close>

definition fold_redirect_heap :: "ref \<Rightarrow> string \<Rightarrow> ref \<Rightarrow> heap \<Rightarrow> ref \<times> heap" where
  "fold_redirect_heap timing req_url redirect_timing h =
     (let h = obj_set redirect_timing
                (\<lambda>x. x \<lparr> dns_ms := dns_ms x + obj_get h timing dns_ms \<rparr>) h;
          h = obj_set redirect_timing
                (\<lambda>x. x \<lparr> tcp_connect_ms := tcp_connect_ms x + obj_get h timing tcp_connect_ms \<rparr>) h;
          h = obj_set redirect_timing
                (\<lambda>x. x \<lparr> tls_handshake_ms :=
                           tls_handshake_ms x + obj_get h timing tls_handshake_ms \<rparr>) h;
          h = obj_set redirect_timing
                (\<lambda>x. x \<lparr> total_ms := total_ms x + obj_get h timing total_ms \<rparr>) h;
          h = obj_set redirect_timing (\<lambda>x. x \<lparr> url := req_url \<rparr>) h
      in (redirect_timing, h))"

subsection \<open>Concrete environments\<close>

text \<open>
  What \<^verbatim>\<open>urlparse\<close> answers on the URLs used below: \<^verbatim>\<open>http://a.test/...\<close> has scheme
  \<^verbatim>\<open>http\<close>, host name \<^verbatim>\<open>a.test\<close> and no port; the port \<^verbatim>\<open>99999\<close> makes \<^verbatim>\<open>parsed.port\<close> raise
  \<^verbatim>\<open>ValueError: Port out of range 0-65535\<close>; the relative reference \<^verbatim>\<open>next\<close> has neither
  scheme nor host name.
\<close>

definition http_url :: "string \<Rightarrow> parsed_url" where
  "http_url h = \<lparr> p_scheme = ''http'', p_hostname = Some h, p_port = Inr None \<rparr>"

definition demo_urlparse :: "string \<Rightarrow> exn + parsed_url" where
  "demo_urlparse u =
     (if u \<in> set [''http://a.test/'', ''http://a.test/old'', ''http://a.test/new'']
      then Inr (http_url ''a.test'')
      else if u = ''http://a.test:99999/''
      then Inr \<lparr> p_scheme = ''http'', p_hostname = Some ''a.test'',
                 p_port = Inl (ValueError ''Port out of range 0-65535'') \<rparr>
      else Inr \<lparr> p_scheme = [], p_hostname = None, p_port = Inr None \<rparr>)"

text \<open>
  A quiet network: every clock reading is one unit after the last, \<^verbatim>\<open>a.test\<close> resolves
  to \<^verbatim>\<open>10.0.0.1\<close> and accepts the connection, no host name resolves to the loopback
  address, where nothing listens, and no byte ever arrives.
\<close>

definition calm :: world where
  "calm = \<lparr> tick = 0, clock = real, urlparse = demo_urlparse,
     str_float = (\<lambda>x. ''30.0''),
     getaddrinfo = (\<lambda>n h p. if h = None then Inr [''127.0.0.1''] else Inr [''10.0.0.1'']),
     connect = (\<lambda>n a. if a = ''127.0.0.1''
                        then Some (ConnectionRefusedError ''[Errno 111] Connection refused'')
                        else None),
     wrap_socket = (\<lambda>n h. Inr (Some ''TLSv1.3'')),
     sendall = (\<lambda>n. None),
     recv = (\<lambda>n. Inl (SocketTimeout ''timed out'')) \<rparr>"

definition ok_response :: string where
  "ok_response = ''HTTP/1.1 200 OK'' @ CRLF @ ''Content-Length: 2'' @ CRLF @ CRLF @ ''hi''"

definition moved_response :: string where
  "moved_response = ''HTTP/1.1 301 Moved Permanently'' @ CRLF @ ''Location: /new'' @ CRLF
                    @ ''Content-Length: 0'' @ CRLF @ CRLF"

definition found_response :: string where
  "found_response = ''HTTP/1.1 302 Found'' @ CRLF @ ''Location: next'' @ CRLF
                    @ ''Content-Length: 0'' @ CRLF @ CRLF"





definition chunked_partial :: string where
  "chunked_partial = ''HTTP/1.1 200 OK'' @ CRLF @ ''Transfer-Encoding: chunked'' @ CRLF @ CRLF
                     @ ''5'' @ CRLF @ ''hello'' @ CRLF"

text \<open>
  The first read of a hop on a plain connection is call 8 of the hop, the first read of
  its loop is call 11; a hop whose loop reads once takes 13 calls.
\<close>

definition one_shot :: world where
  "one_shot = calm \<lparr> recv := (\<lambda>n. if n = 8 then Inr ok_response
                                   else Inl (SocketTimeout ''timed out'')) \<rparr>"

definition redirecting :: world where
  "redirecting = calm \<lparr> recv := (\<lambda>n. if n = 8 then Inr moved_response
                                      else if n = 21 then Inr ok_response
                                      else Inl (SocketTimeout ''timed out'')) \<rparr>"

definition relative_redirect :: world where
  "relative_redirect = calm \<lparr> recv := (\<lambda>n. if n = 8 then Inr found_response
                                            else Inl (SocketTimeout ''timed out'')) \<rparr>"

definition refusing :: world where
  "refusing = calm \<lparr> connect :=
                (\<lambda>n a. Some (ConnectionRefusedError ''[Errno 111] Connection refused'')) \<rparr>"

definition hung_up :: world where
  "hung_up = calm \<lparr> recv := (\<lambda>n. if n = 8 then Inr chunked_partial else Inr []) \<rparr>"

definition chunked_two :: world where
  "chunked_two = calm \<lparr> recv := (\<lambda>n. if n = 8 then Inr chunked_partial
                                      else if n = 11 then Inr (''0'' @ CRLF @ CRLF)
                                      else Inl (SocketTimeout ''timed out'')) \<rparr>"






definition sample_a :: TimingBreakdown where
  "sample_a = new_timing \<lparr> dns_ms := 2, tcp_connect_ms := 4, total_ms := 6,
     url := ''http://a.test/'', status_code := 200, response_size := 10,
     ip_address := ''10.0.0.1'' \<rparr>"

definition sample_b :: TimingBreakdown where
  "sample_b = new_timing \<lparr> dns_ms := 4, tcp_connect_ms := 8, total_ms := 12,
     url := ''http://a.test/'', status_code := 404, response_size := 30,
     ip_address := ''10.0.0.2'' \<rparr>"

text \<open>The records that the runs in these environments end with.\<close>

definition one_shot_timing :: TimingBreakdown where
  "one_shot_timing = new_timing \<lparr> dns_ms := 2000, tcp_connect_ms := 2000,
     server_processing_ms := 3000, content_transfer_ms := 2000, total_ms := 9000,
     url := ''http://a.test/'', status_code := 200, response_size := 2,
     headers_received := [(''content-length'', ''2'')], ip_address := ''10.0.0.1'',
     response_body := ''hi'' \<rparr>"

definition moved_timing :: TimingBreakdown where
  "moved_timing = new_timing \<lparr> dns_ms := 2000, tcp_connect_ms := 2000,
     server_processing_ms := 3000, content_transfer_ms := 2000, total_ms := 9000,
     url := ''http://a.test/old'', status_code := 301, response_size := 0,
     headers_received := [(''location'', ''/new''), (''content-length'', ''0'')],
     ip_address := ''10.0.0.1'' \<rparr>"

definition found_timing :: TimingBreakdown where
  "found_timing = moved_timing \<lparr> status_code := 302,
     headers_received := [(''location'', ''next''), (''content-length'', ''0'')] \<rparr>"

definition refused_timing :: TimingBreakdown where
  "refused_timing = new_timing \<lparr> dns_ms := 2000, url := ''http://a.test/'',
     ip_address := ''10.0.0.1'', error := Some ''Connection refused by a.test:80'' \<rparr>"

definition nowhere_timing :: TimingBreakdown where
  "nowhere_timing = new_timing \<lparr> dns_ms := 2000, url := ''next'',
     ip_address := ''127.0.0.1'', error := Some ''Connection refused by None:80'' \<rparr>"




section \<open>Properties\<close>

subsection \<open>The calls of a hop: frame, order and fields\<close>

lemmas world_ops = perf_counter_def socket_getaddrinfo_def sock_connect_def
  context_wrap_socket_def sock_sendall_def sock_recv_def step_def

lemma parse_response_frame:
  "dns_ms (parse_response d t) = dns_ms t"
  "tcp_connect_ms (parse_response d t) = tcp_connect_ms t"
  "tls_handshake_ms (parse_response d t) = tls_handshake_ms t"
  "server_processing_ms (parse_response d t) = server_processing_ms t"
  "content_transfer_ms (parse_response d t) = content_transfer_ms t"
  "total_ms (parse_response d t) = total_ms t"
  "error (parse_response d t) = error t"
  "url (parse_response d t) = url t"
  by (simp_all add: parse_response_def Let_def split: option.splits)

lemma later_step: "later w (step w)"
  by (simp add: later_def step_def)

lemma later_trans: "later a b \<Longrightarrow> later b c \<Longrightarrow> later a c"
  unfolding later_def
proof (elim conjE, intro conjI)
  assume b: "b = a \<lparr> tick := tick b \<rparr>" and c: "c = b \<lparr> tick := tick c \<rparr>"
  have "c = (a \<lparr> tick := tick b \<rparr>) \<lparr> tick := tick c \<rparr>" using b c by simp
  then show "c = a \<lparr> tick := tick c \<rparr>" by simp
next
  assume "tick a < tick b" "tick b < tick c"
  then show "tick a < tick c" by simp
qed

lemma later_clock: "later w w' \<Longrightarrow> clock w' = clock w"
  unfolding later_def
proof (elim conjE)
  assume "w' = w \<lparr> tick := tick w' \<rparr>"
  then have "clock w' = clock (w \<lparr> tick := tick w' \<rparr>)" by simp
  then show ?thesis by simp
qed

lemma later_recv: "later w w' \<Longrightarrow> recv w' = recv w"
  unfolding later_def
proof (elim conjE)
  assume "w' = w \<lparr> tick := tick w' \<rparr>"
  then have "recv w' = recv (w \<lparr> tick := tick w' \<rparr>)" by simp
  then show ?thesis by simp
qed

lemma later_tick: "later w w' \<Longrightarrow> tick w < tick w'"
  by (simp add: later_def)

lemma open_connection_later:
  "later w (snd (open_connection w host port is_https t))"
  unfolding later_def
  by (simp add: open_connection_def world_ops Let_def split: sum.split option.split)

lemma open_connection_fields:
  "total_ms (timing_of (fst (open_connection w host port is_https t))) = total_ms t
   \<and> server_processing_ms (timing_of (fst (open_connection w host port is_https t)))
       = server_processing_ms t
   \<and> content_transfer_ms (timing_of (fst (open_connection w host port is_https t)))
       = content_transfer_ms t"
  by (simp add: open_connection_def world_ops Let_def split: sum.split option.split)

lemma open_connection_error:
  "(case fst (open_connection w host port is_https t) of
      Completed t' \<Rightarrow> error t' = error t
    | Returned t' \<Rightarrow> error t' \<noteq> None
    | Raised e t' \<Rightarrow> True)"
  by (simp add: open_connection_def world_ops Let_def split: sum.split option.split)

lemma mono_clock: "mono (clock w) \<Longrightarrow> i \<le> j \<Longrightarrow> clock w i \<le> clock w j"
  by (rule monoD)

lemma open_connection_nonneg:
  "mono (clock w) \<Longrightarrow> phases_nonneg t
   \<Longrightarrow> phases_nonneg (timing_of (fst (open_connection w host port is_https t)))"
  by (simp add: open_connection_def world_ops Let_def phases_nonneg_def mono_clock
           split: sum.split option.split)

lemma read_loop_later:
  assumes "read_loop w d = Some y"
  shows "later w (snd y)"
proof (rule read_loop.raw_induct [where P = "\<lambda>w d y. later w (snd y)", OF _ assms], goal_cases)
  case (1 rl w d y)
  note IH = 1(1) and eq = 1(2)
  have s: "snd (sock_recv w) = step w" by (simp add: sock_recv_def)
  show ?case
  proof (cases "fst (sock_recv w)")
    case (Inl e)
    then show ?thesis using eq by (cases e) (auto simp: s later_step)
  next
    case (Inr chunk)
    show ?thesis
    proof (cases "chunk = []")
      case True
      then show ?thesis using eq Inr by (auto simp: s later_step)
    next
      case False
      show ?thesis
      proof (cases "response_complete (d @ chunk)")
        case (Inl e)
        then show ?thesis using eq Inr False by (auto simp: s later_step)
      next
        case fin: (Inr finished)
        show ?thesis
        proof (cases finished)
          case True
          then show ?thesis using eq Inr False fin by (auto simp: s later_step)
        next
          case nf: False
          then have "rl (step w) (d @ chunk) = Some y"
            using eq Inr False fin by (simp add: s)
          then have "later (step w) (snd y)" by (rule IH)
          then show ?thesis using later_step later_trans by blast
        qed
      qed
    qed
  qed
qed

lemma frame_update: "x = w \<lparr> tick := k \<rparr> \<Longrightarrow> x \<lparr> tick := n \<rparr> = w \<lparr> tick := n \<rparr>"
  by simp

lemma exchange_later:
  assumes "exchange w t = Some (out, w')"
  shows "later w w'"
  using assms
  by (auto simp: exchange_def world_ops Let_def later_def
           split: option.splits sum.splits prod.splits dest!: read_loop_later
           intro: frame_update)

lemma exchange_fields:
  assumes "exchange w t = Some (out, w')"
  shows "(case out of
            Completed t' \<Rightarrow> total_ms t' = accounted t'
          | Returned t' \<Rightarrow> False
          | Raised e t' \<Rightarrow> total_ms t' = total_ms t)
         \<and> error (timing_of out) = error t
         \<and> dns_ms (timing_of out) = dns_ms t
         \<and> tcp_connect_ms (timing_of out) = tcp_connect_ms t
         \<and> tls_handshake_ms (timing_of out) = tls_handshake_ms t"
  using assms
  by (auto simp: exchange_def world_ops Let_def accounted_def parse_response_frame
           split: option.splits sum.splits prod.splits)

lemma read_loop_clock:
  assumes "read_loop w d = Some (r, w')"
  shows "clock w' = clock w \<and> tick w < tick w'"
  using read_loop_later [OF assms] later_clock later_tick by fastforce

lemma exchange_nonneg:
  assumes "exchange w t = Some (out, w')" and "mono (clock w)" and "phases_nonneg t"
  shows "phases_nonneg (timing_of out)"
  using assms
  by (auto simp: exchange_def world_ops Let_def phases_nonneg_def parse_response_frame
                 mono_clock
           split: option.splits sum.splits prod.splits dest!: read_loop_clock)

lemma trace_hop_later:
  assumes "trace_hop w host port is_https t = Some (out, w')"
  shows "later w w'"
proof -
  obtain o1 w1 where oc: "open_connection w host port is_https t = (o1, w1)"
    by fastforce
  have l1: "later w w1" using open_connection_later [of w host port is_https t] oc by simp
  show ?thesis
  proof (cases o1)
    case (Completed t1)
    then have "exchange w1 t1 = Some (out, w')"
      using assms oc by (simp add: trace_hop_def)
    then have "later w1 w'" by (rule exchange_later)
    with l1 show ?thesis by (rule later_trans)
  next
    case (Returned t1)
    then show ?thesis using assms oc l1 by (simp add: trace_hop_def)
  next
    case (Raised e t1)
    then show ?thesis using assms oc l1 by (simp add: trace_hop_def)
  qed
qed

lemma trace_hop_fields:
  assumes "trace_hop w host port is_https t = Some (out, w')"
  shows "(case out of
            Completed t' \<Rightarrow> total_ms t' = accounted t' \<and> error t' = error t
          | Returned t' \<Rightarrow> total_ms t' = total_ms t \<and> error t' \<noteq> None
          | Raised e t' \<Rightarrow> total_ms t' = total_ms t)"
proof -
  obtain o1 w1 where oc: "open_connection w host port is_https t = (o1, w1)"
    by fastforce
  have f: "total_ms (timing_of o1) = total_ms t"
    using open_connection_fields [of w host port is_https t] oc by simp
  have e: "(case o1 of Completed t' \<Rightarrow> error t' = error t
            | Returned t' \<Rightarrow> error t' \<noteq> None | Raised e t' \<Rightarrow> True)"
    using open_connection_error [where w = w and host = host and port = port
        and is_https = is_https and t = t] oc by simp
  show ?thesis
  proof (cases o1)
    case (Completed t1)
    then have ex: "exchange w1 t1 = Some (out, w')"
      using assms oc by (simp add: trace_hop_def)
    from Completed f e have "total_ms t1 = total_ms t" "error t1 = error t" by simp_all
    with exchange_fields [OF ex] show ?thesis by (cases out) simp_all
  next
    case (Returned t1)
    then show ?thesis using assms oc f e by (auto simp: trace_hop_def)
  next
    case (Raised e t1)
    then show ?thesis using assms oc f by (auto simp: trace_hop_def)
  qed
qed

lemma trace_hop_nonneg:
  assumes "trace_hop w host port is_https t = Some (out, w')"
    and "mono (clock w)" and "phases_nonneg t"
  shows "phases_nonneg (timing_of out)"
proof -
  obtain o1 w1 where oc: "open_connection w host port is_https t = (o1, w1)"
    by fastforce
  have l1: "later w w1" using open_connection_later [of w host port is_https t] oc by simp
  have n1: "phases_nonneg (timing_of o1)"
    using open_connection_nonneg [OF assms(2,3), of host port is_https] oc by simp
  show ?thesis
  proof (cases o1)
    case (Completed t1)
    then have ex: "exchange w1 t1 = Some (out, w')"
      using assms oc by (simp add: trace_hop_def)
    have "mono (clock w1)" using later_clock [OF l1] assms(2) by simp
    moreover have "phases_nonneg t1" using n1 Completed by simp
    ultimately show ?thesis using exchange_nonneg [OF ex] by simp
  next
    case (Returned t1)
    then show ?thesis using assms oc n1 by (auto simp: trace_hop_def)
  next
    case (Raised e t1)
    then show ?thesis using assms oc n1 by (auto simp: trace_hop_def)
  qed
qed

lemma prepare_timing:
  assumes "prepare w req_url meth headers = Inr (parsed, host, port, is_https, t0)"
  shows "total_ms t0 = 0 \<and> error t0 = None \<and> phases_nonneg t0 \<and> url t0 = req_url
         \<and> host = p_hostname parsed"
  using assms
  by (auto simp: prepare_def Let_def new_timing_def phases_nonneg_def
           split: sum.splits option.splits if_splits)

lemma trace_request_completed:
  assumes "prepare w req_url meth headers = Inr (parsed, host, port, is_https, t0)"
    and "trace_hop w host port is_https t0 = Some (Completed t1, w1)"
  shows "trace_request w req_url meth headers body timeout follow_redirects max_redirects =
         (if takes_redirect follow_redirects max_redirects t1
          then (case trace_request w1 (redirect_target parsed host (location_of t1))
                       meth headers body timeout follow_redirects (max_redirects - 1) of
                  None \<Rightarrow> None
                | Some (Inl e, w2) \<Rightarrow>
                    Some (Inr (t1 \<lparr> error :=
                            Some (error_message w2 e host port timeout) \<rparr>), w2)
                | Some (Inr redirect_timing, w2) \<Rightarrow>
                    Some (Inr (fold_redirect t1 req_url redirect_timing), w2))
          else Some (Inr t1, w1))"
  by (subst trace_request.simps) (simp add: assms)

lemma trace_request_single:
  assumes "trace_request w req_url meth headers body timeout follow_redirects max_redirects
             = Some (Inr t, w')"
    and "\<not> follows_redirect w req_url meth headers follow_redirects max_redirects"
  shows "\<exists>parsed host port is_https t0 out.
           prepare w req_url meth headers = Inr (parsed, host, port, is_https, t0)
           \<and> trace_hop w host port is_https t0 = Some (out, w')
           \<and> (case out of
                 Completed t1 \<Rightarrow> t = t1
               | Returned t1 \<Rightarrow> t = t1
               | Raised e t1 \<Rightarrow>
                   t = t1 \<lparr> error := Some (error_message w' e host port timeout) \<rparr>)"
proof (cases "prepare w req_url meth headers")
  case (Inl e)
  then show ?thesis using assms(1) by (subst (asm) trace_request.simps) simp
next
  case (Inr p)
  obtain parsed host port is_https t0 where p: "p = (parsed, host, port, is_https, t0)"
    by (cases p)
  note prep = Inr [unfolded p]
  show ?thesis
  proof (cases "trace_hop w host port is_https t0")
    case None
    then show ?thesis using assms(1) prep by (subst (asm) trace_request.simps) simp
  next
    case (Some r)
    obtain out w1 where r: "r = (out, w1)" by (cases r)
    note hop = Some [unfolded r]
    show ?thesis
    proof (cases out)
      case (Completed t1)
      have "\<not> takes_redirect follow_redirects max_redirects t1"
        using assms(2) prep hop Completed by (simp add: follows_redirect_def)
      then show ?thesis
        using assms(1) prep hop Completed
        by (subst (asm) trace_request.simps) simp
    next
      case (Returned t1)
      then show ?thesis
        using assms(1) prep hop by (subst (asm) trace_request.simps) simp
    next
      case (Raised e t1)
      then show ?thesis
        using assms(1) prep hop by (subst (asm) trace_request.simps) auto
    qed
  qed
qed








text \<open>
  An exception leaves \<^verbatim>\<open>trace_request\<close> only from the lines before its \<^verbatim>\<open>try\<close>
  statement, before any call to the clock or the network.
\<close>

lemma trace_request_escape:
  assumes "trace_request w req_url meth headers body timeout follow_redirects max_redirects
             = Some (Inl e, w')"
  shows "prepare w req_url meth headers = Inl e \<and> w' = w"
  using assms
  by (subst (asm) trace_request.simps)
     (auto split: sum.splits option.splits prod.splits outcome.splits if_splits)

subsection \<open>A chunked body and its blank line\<close>








lemma parse_response_durations:
  "response_size (parse_response d (t \<lparr> server_processing_ms := a, content_transfer_ms := b \<rparr>))
     = response_size (parse_response d t)"
  "headers_received
     (parse_response d (t \<lparr> server_processing_ms := a, content_transfer_ms := b \<rparr>))
     = headers_received (parse_response d t)"
  by (simp_all add: parse_response_def Let_def split: option.splits)

lemma exchange_reports:
  assumes "exchange w timing = Some (Completed t, w')"
  shows "\<exists>first d' w2.
           recv w (tick w + 2) = Inr first
           \<and> read_loop (w \<lparr> tick := tick w + 5 \<rparr>) first = Some (Inr d', w2)
           \<and> response_size t = response_size (parse_response d' timing)
           \<and> headers_received t = headers_received (parse_response d' timing)"
proof -
  have n: "tick w + 5 = Suc (Suc (Suc (Suc (Suc (tick w)))))" by simp
  show ?thesis
    using assms unfolding n
    by (auto simp: exchange_def world_ops Let_def parse_response_durations
             split: option.splits sum.splits prod.splits)
qed



subsection \<open>The concurrent runner when every worker returns a record\<close>

text \<open>
  When the targets are pairwise distinct, the pool has at least one worker, every task
  completes once and every worker returns a record, the result has the targets as its
  keys, in their order, and a list of \<^verbatim>\<open>count_per_url\<close> records under each key, whatever
  the order of completion.
\<close>

lemma map_fst_map_entry: "map fst (AList.map_entry k f xs) = map fst xs"
  by (induction xs) auto

lemma map_fst_init_results: "distinct urls \<Longrightarrow> map fst (init_results urls) = urls"
proof -
  have "distinct (map fst d @ urls) \<Longrightarrow>
          map fst (fold (\<lambda>u d. AList.update u [] d) urls d) = map fst d @ urls"
    for d :: results
  proof (induction urls arbitrary: d)
    case Nil
    then show ?case by simp
  next
    case (Cons u urls)
    have "u \<notin> fst ` set d" using Cons.prems by auto
    then have m: "map fst (AList.update u [] d) = map fst d @ [u]"
      by (induction d) auto
    show ?case using Cons.IH [of "AList.update u [] d"] Cons.prems m by simp
  qed
  from this [of "[]"] show "distinct urls \<Longrightarrow> map fst (init_results urls) = urls"
    by (simp add: init_results_def)
qed

lemma map_of_init_results:
  "u \<in> set urls \<Longrightarrow> map_of (init_results urls) u = Some []"
proof -
  have "u \<in> set urls \<or> map_of d u = Some [] \<Longrightarrow>
          map_of (fold (\<lambda>u d. AList.update u [] d) urls d) u = Some []"
    for d :: results
    by (induction urls arbitrary: d) (auto simp: update_conv')
  from this [of "[]"] show "u \<in> set urls \<Longrightarrow> map_of (init_results urls) u = Some []"
    by (simp add: init_results_def)
qed

lemma collect_ok:
  assumes "\<forall>j \<in> set order. \<exists>r. run j = Some (Inr r)"
  shows "\<exists>res. collect run tasks order results = Some (Inr res)
           \<and> map fst res = map fst results
           \<and> (\<forall>u l. map_of results u = Some l \<longrightarrow>
                 (\<exists>l'. map_of res u = Some l'
                    \<and> length l' = length l
                        + length (filter (\<lambda>j. fst (tasks ! j) = u) order)))"
  using assms
proof (induction order arbitrary: results)
  case Nil
  then show ?case by simp
next
  case (Cons j order)
  from Cons.prems obtain r where r: "run j = Some (Inr r)" by auto
  let ?results = "AList.map_entry (fst (tasks ! j)) (\<lambda>l. l @ [r]) results"
  from Cons.IH [of ?results] Cons.prems obtain res where
    c: "collect run tasks order ?results = Some (Inr res)"
    and k: "map fst res = map fst ?results"
    and v: "\<forall>u l. map_of ?results u = Some l \<longrightarrow>
                 (\<exists>l'. map_of res u = Some l'
                    \<and> length l' = length l
                        + length (filter (\<lambda>j. fst (tasks ! j) = u) order))"
    by auto
  have 1: "collect run tasks (j # order) results = Some (Inr res)" using r c by simp
  have 2: "map fst res = map fst results" using k by (simp add: map_fst_map_entry)
  have 3: "\<exists>l'. map_of res u = Some l'
            \<and> length l' = length l
                + length (filter (\<lambda>j. fst (tasks ! j) = u) (j # order))"
    if l: "map_of results u = Some l" for u l
  proof (cases "fst (tasks ! j) = u")
    case True
    then have "map_of ?results u = Some (l @ [r])" using l by (simp add: map_of_map_entry)
    with v True show ?thesis by fastforce
  next
    case False
    then have "map_of ?results u = Some l" using l by (simp add: map_of_map_entry)
    with v False show ?thesis by fastforce
  qed
  show ?case using 1 2 3 by blast
qed

lemma tasks_of_count:
  "distinct urls \<Longrightarrow> u \<in> set urls \<Longrightarrow>
     length (filter (\<lambda>t. fst t = u) (tasks_of urls count_per_url)) = nat count_per_url"
proof (induction urls)
  case Nil
  then show ?case by simp
next
  case (Cons a urls)
  have a: "filter (\<lambda>t. fst t = u) (map (\<lambda>i. (a, i)) [0..<nat count_per_url])
             = (if a = u then map (\<lambda>i. (a, i)) [0..<nat count_per_url] else [])"
    by (induction "nat count_per_url") (auto simp: filter_map comp_def)
  have n: "u \<notin> set urls \<Longrightarrow> filter (\<lambda>t. fst t = u) (tasks_of urls count_per_url) = []"
    by (auto simp: tasks_of_def filter_empty_conv)
  show ?case
  proof (cases "a = u")
    case True
    then show ?thesis using Cons.prems a n by (simp add: tasks_of_def)
  next
    case False
    then show ?thesis using Cons a by (simp add: tasks_of_def)
  qed
qed

lemma order_count:
  assumes "distinct order" and "set order = {..<length tasks}"
  shows "length (filter (\<lambda>j. P (tasks ! j)) order) = length (filter P tasks)"
proof -
  have "length (filter (\<lambda>j. P (tasks ! j)) order)
          = card ({j. P (tasks ! j)} \<inter> set order)"
    using assms(1) by (simp add: distinct_length_filter)
  also have "{j. P (tasks ! j)} \<inter> set order = {i. i < length tasks \<and> P (tasks ! i)}"
    using assms(2) by auto
  also have "card \<dots> = length (filter P tasks)"
    by (simp add: length_filter_conv_card)
  finally show ?thesis .
qed

lemma trace_concurrent_ok:
  assumes "distinct urls" and "0 < max_workers"
    and "distinct order" and "set order = {..<length (tasks_of urls count_per_url)}"
    and "\<forall>j < length (tasks_of urls count_per_url). \<exists>r w'.
           trace_request (worlds j) (fst (tasks_of urls count_per_url ! j)) meth headers body
             timeout True 10 = Some (Inr r, w')"
  shows "\<exists>res. trace_concurrent worlds order urls count_per_url meth headers body timeout
                  max_workers = Some (Inr res)
           \<and> map fst res = urls
           \<and> (\<forall>u \<in> set urls. \<exists>l. map_of res u = Some l \<and> length l = nat count_per_url)"
proof -
  let ?tasks = "tasks_of urls count_per_url"
  let ?run = "\<lambda>j. map_option fst
                (trace_request (worlds j) (fst (?tasks ! j)) meth headers body timeout True 10)"
  have "\<forall>j \<in> set order. \<exists>r. ?run j = Some (Inr r)"
    using assms(4,5) by fastforce
  from collect_ok [OF this, of ?tasks "init_results urls"] obtain res where
    c: "collect ?run ?tasks order (init_results urls) = Some (Inr res)"
    and k: "map fst res = map fst (init_results urls)"
    and v: "\<forall>u l. map_of (init_results urls) u = Some l \<longrightarrow>
                 (\<exists>l'. map_of res u = Some l'
                    \<and> length l' = length l
                        + length (filter (\<lambda>j. fst (?tasks ! j) = u) order))"
    by blast
  have "\<exists>l. map_of res u = Some l \<and> length l = nat count_per_url" if "u \<in> set urls" for u
  proof -
    from v map_of_init_results [OF that] obtain l' where
      "map_of res u = Some l'"
      "length l' = length (filter (\<lambda>j. fst (?tasks ! j) = u) order)"
      by fastforce
    then show ?thesis
      using order_count [OF assms(3,4), of "\<lambda>t. fst t = u"] tasks_of_count [OF assms(1) that]
      by simp
  qed
  then show ?thesis
    using c k assms(2) map_fst_init_results [OF assms(1)]
    by (simp add: trace_concurrent_def Let_def)
qed

subsection \<open>Runs in the concrete environments\<close>

lemmas py_defs = CRLF_def startswith_def endswith_def contains_def lower_def lower_char_def
  upper_def upper_char_def strip_with_def is_space_def is_space_str_def py_int_def
  int_literal_def over_limit_def digit_run_def
  digit_val_def dict_get_def str_opt_def suffix_to_prefix

lemma parse_ok_response:
  "parse_response ok_response t = t \<lparr> response_size := 2, status_code := 200,
     headers_received := [(''content-length'', ''2'')], response_body := ''hi'' \<rparr>"
  by (simp add: parse_response_def parse_headers_def ok_response_def py_defs Let_def)

lemma parse_moved_response:
  "parse_response moved_response t = t \<lparr> response_size := 0, status_code := 301,
     headers_received := [(''location'', ''/new''), (''content-length'', ''0'')],
     response_body := [] \<rparr>"
  by (simp add: parse_response_def parse_headers_def moved_response_def py_defs Let_def)

lemma parse_found_response:
  "parse_response found_response t = t \<lparr> response_size := 0, status_code := 302,
     headers_received := [(''location'', ''next''), (''content-length'', ''0'')],
     response_body := [] \<rparr>"
  by (simp add: parse_response_def parse_headers_def found_response_def py_defs Let_def)


lemma complete_ok_response: "response_complete ok_response = Inr True"
  by (simp add: response_complete_def ok_response_def py_defs)

lemma prepare_a_test:
  assumes "urlparse w = demo_urlparse"
    and "u \<in> set [''http://a.test/'', ''http://a.test/old'', ''http://a.test/new'']"
  shows "prepare w u ''GET'' None
         = Inr (http_url ''a.test'', Some ''a.test'', 80, False, new_timing \<lparr> url := u \<rparr>)"
  using assms
  by (auto simp: prepare_def demo_urlparse_def http_url_def Let_def upper_def upper_char_def
        new_timing_def)

lemmas hop_defs = trace_hop_def exchange_def open_connection_def world_ops calm_def Let_def

lemma hop_one_shot:
  "trace_hop one_shot (Some ''a.test'') 80 False (new_timing \<lparr> url := ''http://a.test/'' \<rparr>)
   = Some (Completed one_shot_timing, one_shot \<lparr> tick := 13 \<rparr>)"
  by (simp add: hop_defs one_shot_def read_loop.simps parse_ok_response one_shot_timing_def
        new_timing_def)

lemma urlparse_worlds:
  "urlparse calm = demo_urlparse" "urlparse one_shot = demo_urlparse"
  "urlparse redirecting = demo_urlparse" "urlparse relative_redirect = demo_urlparse"
  "urlparse refusing = demo_urlparse" "urlparse hung_up = demo_urlparse"
  "urlparse chunked_two = demo_urlparse"
  by (simp_all add: calm_def one_shot_def redirecting_def relative_redirect_def refusing_def
        hung_up_def chunked_two_def)

lemma run_one_shot:
  "trace_request one_shot ''http://a.test/'' ''GET'' None None 30 True 10
   = Some (Inr one_shot_timing, one_shot \<lparr> tick := 13 \<rparr>)"
  using trace_request_completed [OF prepare_a_test [OF urlparse_worlds(2)] hop_one_shot,
      where body = None and timeout = 30 and follow_redirects = True and max_redirects = 10]
  by (simp add: takes_redirect_def is_redirect_def one_shot_timing_def new_timing_def)

lemma hop_redirecting_first:
  "trace_hop redirecting (Some ''a.test'') 80 False (new_timing \<lparr> url := ''http://a.test/old'' \<rparr>)
   = Some (Completed moved_timing, redirecting \<lparr> tick := 13 \<rparr>)"
  by (simp add: hop_defs redirecting_def read_loop.simps parse_moved_response moved_timing_def
        new_timing_def)

lemma hop_redirecting_second:
  "trace_hop (redirecting \<lparr> tick := 13 \<rparr>) (Some ''a.test'') 80 False
     (new_timing \<lparr> url := ''http://a.test/new'' \<rparr>)
   = Some (Completed (one_shot_timing \<lparr> url := ''http://a.test/new'' \<rparr>),
           redirecting \<lparr> tick := 26 \<rparr>)"
  by (simp add: hop_defs redirecting_def read_loop.simps parse_ok_response one_shot_timing_def
        new_timing_def)

lemma run_redirecting_second:
  "trace_request (redirecting \<lparr> tick := 13 \<rparr>) ''http://a.test/new'' ''GET'' None None 30 True 9
   = Some (Inr (one_shot_timing \<lparr> url := ''http://a.test/new'' \<rparr>),
           redirecting \<lparr> tick := 26 \<rparr>)"
  using trace_request_completed [OF prepare_a_test hop_redirecting_second,
      where body = None and timeout = 30 and follow_redirects = True and max_redirects = 9]
  by (simp add: urlparse_worlds takes_redirect_def is_redirect_def one_shot_timing_def
        new_timing_def)

lemma moved_takes_redirect:
  "takes_redirect True 10 moved_timing"
  "redirect_target (http_url ''a.test'') (Some ''a.test'') (location_of moved_timing)
     = ''http://a.test/new''"
  by (simp_all add: takes_redirect_def is_redirect_def location_of_def dict_get_def
        moved_timing_def redirect_target_def startswith_def http_url_def str_opt_def)

lemma run_redirecting:
  "trace_request redirecting ''http://a.test/old'' ''GET'' None None 30 True 10
   = Some (Inr (fold_redirect moved_timing ''http://a.test/old''
                  (one_shot_timing \<lparr> url := ''http://a.test/new'' \<rparr>)),
           redirecting \<lparr> tick := 26 \<rparr>)"
  using trace_request_completed [OF prepare_a_test hop_redirecting_first,
      where body = None and timeout = 30 and follow_redirects = True and max_redirects = 10]
  by (simp add: urlparse_worlds moved_takes_redirect run_redirecting_second)

lemma hop_relative_first:
  "trace_hop relative_redirect (Some ''a.test'') 80 False
     (new_timing \<lparr> url := ''http://a.test/old'' \<rparr>)
   = Some (Completed found_timing, relative_redirect \<lparr> tick := 13 \<rparr>)"
  by (simp add: hop_defs relative_redirect_def read_loop.simps parse_found_response
        found_timing_def moved_timing_def new_timing_def)

lemma found_takes_redirect:
  "takes_redirect True 10 found_timing"
  "location_of found_timing = ''next''"
  "redirect_target (http_url ''a.test'') (Some ''a.test'') ''next'' = ''next''"
  by (simp_all add: takes_redirect_def is_redirect_def location_of_def dict_get_def
        found_timing_def moved_timing_def redirect_target_def startswith_def)

lemma str_int_80: "str_int 80 = ''80''"
  by (simp add: str_int_def str_nat.simps)

lemma run_relative_second:
  "trace_request (relative_redirect \<lparr> tick := 13 \<rparr>) ''next'' ''GET'' None None 30 True 9
   = Some (Inr nowhere_timing, relative_redirect \<lparr> tick := 18 \<rparr>)"
  by (subst trace_request.simps)
     (simp add: prepare_def demo_urlparse_def upper_def upper_char_def hop_defs
        relative_redirect_def error_message_def str_int_80 str_opt_def nowhere_timing_def
        new_timing_def)

lemma run_relative:
  "trace_request relative_redirect ''http://a.test/old'' ''GET'' None None 30 True 10
   = Some (Inr (fold_redirect found_timing ''http://a.test/old'' nowhere_timing),
           relative_redirect \<lparr> tick := 18 \<rparr>)"
  using trace_request_completed [OF prepare_a_test hop_relative_first,
      where body = None and timeout = 30 and follow_redirects = True and max_redirects = 10]
  by (simp add: urlparse_worlds found_takes_redirect run_relative_second)

lemma run_refusing:
  "trace_request refusing ''http://a.test/'' ''GET'' None None 30 True 10
   = Some (Inr refused_timing, refusing \<lparr> tick := 5 \<rparr>)"
  by (subst trace_request.simps)
     (simp add: prepare_a_test urlparse_worlds hop_defs refusing_def error_message_def
        str_int_80 str_opt_def refused_timing_def new_timing_def)

lemma loop_one_shot:
  "read_loop (one_shot \<lparr> tick := 11 \<rparr>) ok_response
   = Some (Inr ok_response, one_shot \<lparr> tick := 12 \<rparr>)"
  by (simp add: read_loop.simps world_ops one_shot_def calm_def)






lemma run_bad_port:
  "trace_request calm ''http://a.test:99999/'' ''GET'' None None 30 True 10
   = Some (Inl (ValueError ''Port out of range 0-65535''), calm)"
  by (subst trace_request.simps)
     (simp add: prepare_def urlparse_worlds demo_urlparse_def)

lemma hop_refusing:
  "trace_hop refusing (Some ''a.test'') 80 False (new_timing \<lparr> url := ''http://a.test/'' \<rparr>)
   = Some (Raised (ConnectionRefusedError ''[Errno 111] Connection refused'')
             (new_timing \<lparr> url := ''http://a.test/'', dns_ms := 2000,
                ip_address := ''10.0.0.1'' \<rparr>),
           refusing \<lparr> tick := 5 \<rparr>)"
  by (simp add: hop_defs refusing_def new_timing_def)

lemma mono_real: "mono (real :: nat \<Rightarrow> real)"
  by (simp add: mono_def)

lemma dns_moved: "dns_ms moved_timing = 2000" "total_ms moved_timing = 9000"
  by (simp_all add: moved_timing_def new_timing_def)

lemma dns_one_shot:
  "dns_ms (one_shot_timing \<lparr> url := u \<rparr>) = 2000"
  "total_ms (one_shot_timing \<lparr> url := u \<rparr>) = 9000"
  by (simp_all add: one_shot_timing_def new_timing_def)


















subsection \<open>Redirect folding\<close>

text \<open>
  C1, as the code has it. Let the first hop complete with the record \<open>t1\<close>, a redirect
  status (301, 302, 303, 307 or 308), a non-empty \<^verbatim>\<open>location\<close> header and a positive
  redirect budget (\<open>takes_redirect\<close>), and let the follow-up probe return the record \<open>r\<close>.
  Then the probe returns \<open>r\<close> folded with \<open>t1\<close>: the resolution, connect and handshake
  durations are those of \<open>r\<close> plus those of \<open>t1\<close>, the processing and transfer durations
  are those of \<open>r\<close> alone, the URL is the requested URL, and the total is the total of \<open>r\<close>
  plus the total of \<open>t1\<close>, the latter being the sum of the five phases of \<open>t1\<close>. The total
  is the final hop's total plus the first hop's total only: the first hop's resolution,
  connect and handshake durations are not added to it a second time.
\<close>

theorem redirect_fold:
  assumes "prepare w req_url meth headers = Inr (parsed, host, port, is_https, t0)"
    and "trace_hop w host port is_https t0 = Some (Completed t1, w1)"
    and "takes_redirect follow_redirects max_redirects t1"
    and "trace_request w1 (redirect_target parsed host (location_of t1)) meth headers body
           timeout follow_redirects (max_redirects - 1) = Some (Inr r, w2)"
  shows "trace_request w req_url meth headers body timeout follow_redirects max_redirects
           = Some (Inr (fold_redirect t1 req_url r), w2)
         \<and> total_ms (fold_redirect t1 req_url r) = total_ms r + total_ms t1
         \<and> total_ms t1 = dns_ms t1 + tcp_connect_ms t1 + tls_handshake_ms t1
                          + server_processing_ms t1 + content_transfer_ms t1
         \<and> dns_ms (fold_redirect t1 req_url r) = dns_ms r + dns_ms t1
         \<and> tcp_connect_ms (fold_redirect t1 req_url r) = tcp_connect_ms r + tcp_connect_ms t1
         \<and> tls_handshake_ms (fold_redirect t1 req_url r)
             = tls_handshake_ms r + tls_handshake_ms t1
         \<and> server_processing_ms (fold_redirect t1 req_url r) = server_processing_ms r
         \<and> content_transfer_ms (fold_redirect t1 req_url r) = content_transfer_ms r
         \<and> url (fold_redirect t1 req_url r) = req_url"
proof -
  have "trace_request w req_url meth headers body timeout follow_redirects max_redirects
          = Some (Inr (fold_redirect t1 req_url r), w2)"
    using trace_request_completed [OF assms(1,2)] assms(3,4) by simp
  moreover have "total_ms t1 = accounted t1"
    using trace_hop_fields [OF assms(2)] by simp
  ultimately show ?thesis by (simp add: fold_redirect_def accounted_def)
qed

text \<open>
  In the environment \<open>redirecting\<close> the first hop answers 301 with \<^verbatim>\<open>Location: /new\<close> and
  the second hop answers 200; the folded record has total 9000 + 9000 and resolution
  2000 + 2000.
\<close>

theorem redirect_fold_witness:
  "prepare redirecting ''http://a.test/old'' ''GET'' None
     = Inr (http_url ''a.test'', Some ''a.test'', 80, False,
            new_timing \<lparr> url := ''http://a.test/old'' \<rparr>)
   \<and> trace_hop redirecting (Some ''a.test'') 80 False
         (new_timing \<lparr> url := ''http://a.test/old'' \<rparr>)
       = Some (Completed moved_timing, redirecting \<lparr> tick := 13 \<rparr>)
   \<and> takes_redirect True 10 moved_timing
   \<and> trace_request (redirecting \<lparr> tick := 13 \<rparr>)
         (redirect_target (http_url ''a.test'') (Some ''a.test'') (location_of moved_timing))
         ''GET'' None None 30 True (10 - 1)
       = Some (Inr (one_shot_timing \<lparr> url := ''http://a.test/new'' \<rparr>),
               redirecting \<lparr> tick := 26 \<rparr>)
   \<and> trace_request redirecting ''http://a.test/old'' ''GET'' None None 30 True 10
       = Some (Inr (fold_redirect moved_timing ''http://a.test/old''
                      (one_shot_timing \<lparr> url := ''http://a.test/new'' \<rparr>)),
               redirecting \<lparr> tick := 26 \<rparr>)
   \<and> total_ms (fold_redirect moved_timing ''http://a.test/old''
                  (one_shot_timing \<lparr> url := ''http://a.test/new'' \<rparr>)) = 9000 + 9000
   \<and> dns_ms (fold_redirect moved_timing ''http://a.test/old''
                (one_shot_timing \<lparr> url := ''http://a.test/new'' \<rparr>)) = 2000 + 2000
   \<and> url (fold_redirect moved_timing ''http://a.test/old''
             (one_shot_timing \<lparr> url := ''http://a.test/new'' \<rparr>)) = ''http://a.test/old''"
proof -
  have p: "prepare redirecting ''http://a.test/old'' ''GET'' None
             = Inr (http_url ''a.test'', Some ''a.test'', 80, False,
                    new_timing \<lparr> url := ''http://a.test/old'' \<rparr>)"
    by (simp add: prepare_a_test urlparse_worlds)
  have f: "trace_request (redirecting \<lparr> tick := 13 \<rparr>)
             (redirect_target (http_url ''a.test'') (Some ''a.test'') (location_of moved_timing))
             ''GET'' None None 30 True (10 - 1)
           = Some (Inr (one_shot_timing \<lparr> url := ''http://a.test/new'' \<rparr>),
                   redirecting \<lparr> tick := 26 \<rparr>)"
    by (simp add: moved_takes_redirect run_redirecting_second)
  show ?thesis
    using redirect_fold [OF p hop_redirecting_first moved_takes_redirect(1) f] p f
      hop_redirecting_first moved_takes_redirect(1)
    by (simp add: dns_moved dns_one_shot)
qed

text \<open>
  The sentence as the specification words it, total = (first hop's resolution + connect +
  handshake + total) + final hop's total, fails in \<open>redirecting\<close>: the folded total is 18000,
  the value of that expression is 22000.
\<close>

theorem redirect_total_counterexample:
  "trace_hop redirecting (Some ''a.test'') 80 False (new_timing \<lparr> url := ''http://a.test/old'' \<rparr>)
     = Some (Completed moved_timing, redirecting \<lparr> tick := 13 \<rparr>)
   \<and> trace_request (redirecting \<lparr> tick := 13 \<rparr>) ''http://a.test/new'' ''GET'' None None 30
         True 9
       = Some (Inr (one_shot_timing \<lparr> url := ''http://a.test/new'' \<rparr>),
               redirecting \<lparr> tick := 26 \<rparr>)
   \<and> trace_request redirecting ''http://a.test/old'' ''GET'' None None 30 True 10
       = Some (Inr (fold_redirect moved_timing ''http://a.test/old''
                      (one_shot_timing \<lparr> url := ''http://a.test/new'' \<rparr>)),
               redirecting \<lparr> tick := 26 \<rparr>)
   \<and> total_ms (fold_redirect moved_timing ''http://a.test/old''
                  (one_shot_timing \<lparr> url := ''http://a.test/new'' \<rparr>)) = 18000
   \<and> (dns_ms moved_timing + tcp_connect_ms moved_timing + tls_handshake_ms moved_timing
        + total_ms moved_timing)
       + total_ms (one_shot_timing \<lparr> url := ''http://a.test/new'' \<rparr>) = 22000
   \<and> total_ms (fold_redirect moved_timing ''http://a.test/old''
                  (one_shot_timing \<lparr> url := ''http://a.test/new'' \<rparr>))
       \<noteq> (dns_ms moved_timing + tcp_connect_ms moved_timing + tls_handshake_ms moved_timing
            + total_ms moved_timing)
           + total_ms (one_shot_timing \<lparr> url := ''http://a.test/new'' \<rparr>)"
  by (simp add: hop_redirecting_first run_redirecting_second run_redirecting)
     (simp add: fold_redirect_def moved_timing_def one_shot_timing_def new_timing_def)

subsection \<open>Exceptions that leave \<^verbatim>\<open>trace_request\<close>\<close>

text \<open>
  C2. \<^verbatim>\<open>urlparse(url)\<close> and \<^verbatim>\<open>parsed.port\<close> (lines 97 to 100) are evaluated before the
  \<^verbatim>\<open>try\<close> statement. For the URL \<^verbatim>\<open>http://a.test:99999/\<close> the attribute \<^verbatim>\<open>port\<close>
  raises \<^verbatim>\<open>ValueError\<close>, which no handler of \<^verbatim>\<open>trace_request\<close> catches: the call ends
  with the exception, without a \<^verbatim>\<open>TimingBreakdown\<close>, and without a single call to the
  clock or the network.
\<close>

theorem unparsable_port_escapes:
  "trace_request calm ''http://a.test:99999/'' ''GET'' None None 30 True 10
   = Some (Inl (ValueError ''Port out of range 0-65535''), calm)"
  by (rule run_bad_port)

subsection \<open>The read loop and a declared content length\<close>

text \<open>
  C3. The loop of the transfer phase calls \<^verbatim>\<open>sock.recv\<close> before its first completeness
  check. In the environment \<open>one_shot\<close> the first read (line 161, before the loop) delivers
  the whole response, header section and the two body bytes that \<^verbatim>\<open>Content-Length: 2\<close>
  declares, so the buffered bytes are complete when the loop is entered. The loop reads
  once more all the same; that read blocks until the two-second timeout fires, and the
  transfer duration is measured across it.
\<close>

theorem content_length_extra_read:
  "declares_content_length ok_response
   \<and> response_complete ok_response = Inr True
   \<and> read_loop (one_shot \<lparr> tick := 11 \<rparr>) ok_response
       = Some (Inr ok_response, one_shot \<lparr> tick := 12 \<rparr>)
   \<and> recv one_shot 11 = Inl (SocketTimeout ''timed out'')
   \<and> trace_request one_shot ''http://a.test/'' ''GET'' None None 30 True 10
       = Some (Inr one_shot_timing, one_shot \<lparr> tick := 13 \<rparr>)
   \<and> content_transfer_ms one_shot_timing = (clock one_shot 12 - clock one_shot 10) * 1000"
  by (simp add: complete_ok_response loop_one_shot run_one_shot)
     (simp add: declares_content_length_def header_lines_def ok_response_def py_defs
        one_shot_def calm_def one_shot_timing_def new_timing_def)

subsection \<open>The read loop and chunked transfer encoding\<close>




subsection \<open>The concurrent runner\<close>

text \<open>
  C5. \<^verbatim>\<open>future.result()\<close> re-raises what its worker raised. With the single target
  \<^verbatim>\<open>http://a.test:99999/\<close>, one repetition and five workers, the worker's call of
  \<^verbatim>\<open>trace_request\<close> raises \<^verbatim>\<open>ValueError\<close> before its \<^verbatim>\<open>try\<close> statement, and
  \<^verbatim>\<open>trace_concurrent\<close> ends with that exception instead of returning a mapping.
\<close>

theorem runner_crashes:
  "trace_concurrent (\<lambda>j. calm) [0] [''http://a.test:99999/''] 1 ''GET'' None None 30 5
   = Some (Inl (ValueError ''Port out of range 0-65535''))"
  by (simp add: trace_concurrent_def tasks_of_def init_results_def run_bad_port)

subsection \<open>The total of a probe that succeeds without a redirect\<close>

text \<open>
  C6. When \<^verbatim>\<open>trace_request\<close> returns a record without an error and the probe did not
  enter the redirect branch, the total of the record is the sum of its five phase
  durations, and its overhead is zero. (Durations are real numbers here, so the equality
  is exact.)
\<close>

theorem single_hop_total:
  assumes "trace_request w req_url meth headers body timeout follow_redirects max_redirects
             = Some (Inr t, w')"
    and "error t = None"
    and "\<not> follows_redirect w req_url meth headers follow_redirects max_redirects"
  shows "total_ms t = dns_ms t + tcp_connect_ms t + tls_handshake_ms t
                      + server_processing_ms t + content_transfer_ms t
         \<and> overhead_ms t = 0"
proof -
  from trace_request_single [OF assms(1,3)]
  obtain parsed host port is_https t0 out where
    prep: "prepare w req_url meth headers = Inr (parsed, host, port, is_https, t0)"
    and hop: "trace_hop w host port is_https t0 = Some (out, w')"
    and res: "(case out of Completed t1 \<Rightarrow> t = t1 | Returned t1 \<Rightarrow> t = t1
               | Raised e t1 \<Rightarrow>
                   t = t1 \<lparr> error := Some (error_message w' e host port timeout) \<rparr>)"
    by blast
  have "total_ms t = accounted t"
  proof (cases out)
    case (Completed t1)
    then show ?thesis using trace_hop_fields [OF hop] res by simp
  next
    case (Returned t1)
    then show ?thesis using trace_hop_fields [OF hop] res assms(2) by simp
  next
    case (Raised e t1)
    then show ?thesis using res assms(2) by simp
  qed
  then show ?thesis by (simp add: overhead_ms_def accounted_def)
qed

text \<open>
  In the environment \<open>one_shot\<close> the probe succeeds with the phases 2000, 2000, 0, 3000
  and 2000.
\<close>

theorem single_hop_total_witness:
  "trace_request one_shot ''http://a.test/'' ''GET'' None None 30 True 10
     = Some (Inr one_shot_timing, one_shot \<lparr> tick := 13 \<rparr>)
   \<and> error one_shot_timing = None
   \<and> \<not> follows_redirect one_shot ''http://a.test/'' ''GET'' None True 10
   \<and> total_ms one_shot_timing = 2000 + 2000 + 0 + 3000 + 2000
   \<and> overhead_ms one_shot_timing = 0"
proof -
  have e: "error one_shot_timing = None"
    by (simp add: one_shot_timing_def new_timing_def)
  have n: "\<not> follows_redirect one_shot ''http://a.test/'' ''GET'' None True 10"
    by (simp add: follows_redirect_def prepare_a_test urlparse_worlds hop_one_shot)
       (simp add: takes_redirect_def is_redirect_def one_shot_timing_def new_timing_def)
  show ?thesis
    using single_hop_total [OF run_one_shot e n] e n
    by (simp add: run_one_shot one_shot_timing_def new_timing_def)
qed

subsection \<open>The averager\<close>

text \<open>
  C7. For a non-empty list, \<^verbatim>\<open>average_timing\<close> returns the arithmetic means of the five
  phase fields and of the total, takes URL, method, status code, peer address and
  secure-channel version from the first sample and the response size from the last; for
  the empty list it returns the zero-valued default record.
\<close>

theorem average_timing_spec:
  "(results \<noteq> [] \<longrightarrow>
      dns_ms (average_timing results) = sum_list (map dns_ms results) / real (length results)
    \<and> tcp_connect_ms (average_timing results)
        = sum_list (map tcp_connect_ms results) / real (length results)
    \<and> tls_handshake_ms (average_timing results)
        = sum_list (map tls_handshake_ms results) / real (length results)
    \<and> server_processing_ms (average_timing results)
        = sum_list (map server_processing_ms results) / real (length results)
    \<and> content_transfer_ms (average_timing results)
        = sum_list (map content_transfer_ms results) / real (length results)
    \<and> total_ms (average_timing results)
        = sum_list (map total_ms results) / real (length results)
    \<and> url (average_timing results) = url (hd results) 
    \<and> http_method (average_timing results) = http_method (hd results)
    \<and> status_code (average_timing results) = status_code (hd results)
    \<and> ip_address (average_timing results) = ip_address (hd results)
    \<and> tls_version (average_timing results) = tls_version (hd results)
    \<and> response_size (average_timing results) = response_size (last results))
   \<and> average_timing [] = new_timing
   \<and> dns_ms new_timing = 0 \<and> tcp_connect_ms new_timing = 0 \<and> tls_handshake_ms new_timing = 0
   \<and> server_processing_ms new_timing = 0 \<and> content_transfer_ms new_timing = 0
   \<and> total_ms new_timing = 0 \<and> status_code new_timing = 0 \<and> response_size new_timing = 0
   \<and> error new_timing = None"
  by (simp add: average_timing_def mean_of_def new_timing_def)

theorem average_timing_spec_witness:
  "[sample_a, sample_b] \<noteq> []
   \<and> dns_ms (average_timing [sample_a, sample_b]) = 3
   \<and> total_ms (average_timing [sample_a, sample_b]) = 9
   \<and> status_code (average_timing [sample_a, sample_b]) = 200
   \<and> ip_address (average_timing [sample_a, sample_b]) = ''10.0.0.1''
   \<and> response_size (average_timing [sample_a, sample_b]) = 30"
  using average_timing_spec [of "[sample_a, sample_b]"]
  by (simp add: sample_a_def sample_b_def new_timing_def)

subsection \<open>The target of the follow-up probe\<close>

text \<open>
  C8. Lines 252 and 253 resolve a location against the scheme and the host name of the
  request only when it starts with \<^verbatim>\<open>/\<close>. In the environment \<open>relative_redirect\<close> the
  first hop answers 302 with \<^verbatim>\<open>Location: next\<close>, a relative reference. The follow-up
  probe targets the string \<^verbatim>\<open>next\<close> as it is, not \<^verbatim>\<open>http://a.test/next\<close>: \<^verbatim>\<open>urlparse\<close>
  finds no host name in it, the resolver is asked for the host \<^verbatim>\<open>None\<close>, and the probe
  ends with the error of a refused connection to \<^verbatim>\<open>None:80\<close>. A location that does start
  with \<^verbatim>\<open>/\<close> is joined to the scheme and the host name without the port of the
  request.
\<close>

theorem relative_location_not_resolved:
  "trace_hop relative_redirect (Some ''a.test'') 80 False
       (new_timing \<lparr> url := ''http://a.test/old'' \<rparr>)
     = Some (Completed found_timing, relative_redirect \<lparr> tick := 13 \<rparr>)
   \<and> takes_redirect True 10 found_timing
   \<and> location_of found_timing = ''next''
   \<and> redirect_target (http_url ''a.test'') (Some ''a.test'') ''next'' = ''next''
   \<and> redirect_target (http_url ''a.test'') (Some ''a.test'') ''next'' \<noteq> ''http://a.test/next''
   \<and> redirect_target (http_url ''a.test'' \<lparr> p_port := Inr (Some 8080) \<rparr>) (Some ''a.test'')
         ''/new'' = ''http://a.test/new''
   \<and> trace_request relative_redirect ''http://a.test/old'' ''GET'' None None 30 True 10
       = Some (Inr (fold_redirect found_timing ''http://a.test/old'' nowhere_timing),
               relative_redirect \<lparr> tick := 18 \<rparr>)
   \<and> error (fold_redirect found_timing ''http://a.test/old'' nowhere_timing)
       = Some ''Connection refused by None:80''"
  by (simp add: hop_relative_first found_takes_redirect run_relative)
     (simp add: fold_redirect_def nowhere_timing_def new_timing_def redirect_target_def
        startswith_def http_url_def str_opt_def)

subsection \<open>The averager and its input records\<close>

text \<open>
  The heap version of \<^verbatim>\<open>average_timing\<close> allocates one object, whose value is what the
  function on values computes from the referenced records. The lines that fold a
  redirect, in contrast, overwrite the object they are given and return its reference.
\<close>

lemma average_timing_heap_value:
  "average_timing_heap results h
   = (length h, h @ [average_timing (map (\<lambda>a. h ! a) results)])"
  by (cases results)
     (simp_all add: average_timing_heap_def average_timing_def obj_new_def obj_get_def
        sum_attr_def mean_of_def Let_def last_map last_conv_nth comp_def)

lemma fold_redirect_heap_in_place:
  "fold_redirect_heap 0 ''http://a.test/old'' 1 [sample_a, sample_b]
   = (1, [sample_a, fold_redirect sample_a ''http://a.test/old'' sample_b])"
  by (simp add: fold_redirect_heap_def obj_set_def obj_get_def fold_redirect_def Let_def)

text \<open>
  C9. \<^verbatim>\<open>average_timing\<close>, run on a heap in which every reference of its input list is
  allocated, leaves every object that the heap held before the call as it was, and
  returns a reference that is no element of the input list and was not allocated
  before: the reference of the object that the call constructs, which holds the
  averages.
\<close>

theorem average_timing_frame:
  assumes "average_timing_heap results h = (r, h')"
    and "\<forall>a \<in> set results. a < length h"
  shows "(\<forall>a < length h. h' ! a = h ! a) \<and> r \<notin> set results \<and> \<not> r < length h
         \<and> r < length h' \<and> h' ! r = average_timing (map (\<lambda>a. h ! a) results)"
proof (cases "results = []")
  case True
  then show ?thesis
    using assms(1)
    by (auto simp: average_timing_heap_def obj_new_def average_timing_def nth_append)
next
  case False
  then show ?thesis
    using assms
    by (auto simp: average_timing_heap_def obj_new_def obj_get_def sum_attr_def Let_def
          average_timing_def mean_of_def nth_append hd_conv_nth last_conv_nth comp_def)
qed

text \<open>
  On a heap of two samples, with the input list of references 0, 1, 0: both samples are
  as they were, and the result is the new reference 2.
\<close>

theorem average_timing_frame_witness:
  "list_all (\<lambda>a. a < length [sample_a, sample_b]) [0, 1, 0]
   \<and> snd (average_timing_heap [0, 1, 0] [sample_a, sample_b]) ! 0 = sample_a
   \<and> snd (average_timing_heap [0, 1, 0] [sample_a, sample_b]) ! 1 = sample_b
   \<and> fst (average_timing_heap [0, 1, 0] [sample_a, sample_b]) = 2
   \<and> length (snd (average_timing_heap [0, 1, 0] [sample_a, sample_b])) = 3
   \<and> dns_ms (snd (average_timing_heap [0, 1, 0] [sample_a, sample_b]) ! 2) = 8 / 3"
  using average_timing_frame [of "[0, 1, 0]" "[sample_a, sample_b]"
      "fst (average_timing_heap [0, 1, 0] [sample_a, sample_b])"
      "snd (average_timing_heap [0, 1, 0] [sample_a, sample_b])"]
  by (simp add: average_timing_heap_def obj_new_def obj_get_def sum_attr_def Let_def
        average_timing_def mean_of_def sample_a_def sample_b_def new_timing_def)

subsection \<open>The total of a probe that fails\<close>


text \<open>
  Apart from that case the total of a failed probe is zero: when \<^verbatim>\<open>trace_request\<close>
  returns a record with an error, the probe did not enter the redirect branch of line
  249 and the clock never runs backwards, the total of the record is zero, its overhead
  is zero, and the total is less than the sum of the five phases whenever one of them is
  not zero.
\<close>

lemma failed_probe_total_zero:
  assumes "trace_request w req_url meth headers body timeout follow_redirects max_redirects
             = Some (Inr t, w')"
    and "error t \<noteq> None"
    and "\<not> follows_redirect w req_url meth headers follow_redirects max_redirects"
    and "mono (clock w)"
  shows "total_ms t = 0 \<and> overhead_ms t = 0
         \<and> (dns_ms t \<noteq> 0 \<or> tcp_connect_ms t \<noteq> 0 \<or> tls_handshake_ms t \<noteq> 0
              \<or> server_processing_ms t \<noteq> 0 \<or> content_transfer_ms t \<noteq> 0
            \<longrightarrow> total_ms t < dns_ms t + tcp_connect_ms t + tls_handshake_ms t
                              + server_processing_ms t + content_transfer_ms t)"
proof -
  from trace_request_single [OF assms(1,3)]
  obtain parsed host port is_https t0 out where
    prep: "prepare w req_url meth headers = Inr (parsed, host, port, is_https, t0)"
    and hop: "trace_hop w host port is_https t0 = Some (out, w')"
    and res: "(case out of Completed t1 \<Rightarrow> t = t1 | Returned t1 \<Rightarrow> t = t1
               | Raised e t1 \<Rightarrow>
                   t = t1 \<lparr> error := Some (error_message w' e host port timeout) \<rparr>)"
    by blast
  note t0 = prepare_timing [OF prep]
  have nn: "phases_nonneg (timing_of out)"
    using trace_hop_nonneg [OF hop assms(4)] t0 by simp
  have "total_ms t = 0 \<and> phases_nonneg t"
  proof (cases out)
    case (Completed t1)
    then have "error t = None" using trace_hop_fields [OF hop] res t0 by simp
    with assms(2) show ?thesis by simp
  next
    case (Returned t1)
    then show ?thesis using trace_hop_fields [OF hop] res t0 nn by simp
  next
    case (Raised e t1)
    then show ?thesis
      using trace_hop_fields [OF hop] res t0 nn by (simp add: phases_nonneg_def)
  qed
  then show ?thesis
    by (auto simp: overhead_ms_def accounted_def phases_nonneg_def)
qed

end
